theory Spec2Isabelle
  imports Complex_Main "HOL-Library.Word" "HOL-Library.Sublist"
begin

section \<open>Strings of the language runtime\<close>

text \<open>
  A string of the dashboard is a sequence of UTF-16 code units. Literals of the source
  are written with \<open>ascii\<close> for their Basic Latin part and with the code units of the
  Vietnamese letters and pictographs in between (the source file is in NFC).
\<close>

type_synonym js_string = "16 word list"

definition ascii :: "string \<Rightarrow> js_string" where
  "ascii s = map of_char s"

text \<open>\<^verbatim>\<open>s.includes(sub)\<close>: \<open>sub\<close> occurs in \<open>s\<close> as a contiguous run of code units.\<close>

primrec js_includes :: "js_string \<Rightarrow> js_string \<Rightarrow> bool" where
  "js_includes [] sub = (sub = [])"
| "js_includes (x # xs) sub = (prefix sub (x # xs) \<or> js_includes xs sub)"

text \<open>
  \<^verbatim>\<open>s.trim()\<close> removes the white space and line terminator code units of the language
  definition from both ends.
\<close>

definition isWhiteSpace :: "16 word \<Rightarrow> bool" where
  "isWhiteSpace c =
     (c \<in> set [0x9, 0xA, 0xB, 0xC, 0xD, 0x20, 0xA0, 0x1680, 0x2028, 0x2029, 0x202F, 0x205F,
               0x3000, 0xFEFF]
      \<or> (0x2000 \<le> c \<and> c \<le> 0x200A))"

definition trim :: "js_string \<Rightarrow> js_string" where
  "trim s = rev (dropWhile isWhiteSpace (rev (dropWhile isWhiteSpace s)))"

subsection \<open>String literals of \<^verbatim>\<open>UserDashboard\<close>\<close>

named_theorems literal_defs "code units of the string literals of the source"

definition kw_xem :: js_string where
  \<comment> \<open>'xem'\<close>
  kw_xem_def [literal_defs]: "kw_xem = ascii ''xem''"

definition kw_danh_sach :: js_string where
  \<comment> \<open>'danh s<U+00E1>ch'\<close>
  kw_danh_sach_def [literal_defs]: "kw_danh_sach = ascii ''danh s'' @ [0xE1] @ ascii ''ch''"

definition kw_hoa_don :: js_string where
  \<comment> \<open>'h<U+00F3>a <U+0111><U+01A1>n'\<close>
  kw_hoa_don_def [literal_defs]: "kw_hoa_don = ascii ''h'' @ [0xF3] @ ascii ''a '' @ [0x111, 0x1A1] @ ascii ''n''"

definition kw_tim :: js_string where
  \<comment> \<open>'t<U+00EC>m'\<close>
  kw_tim_def [literal_defs]: "kw_tim = ascii ''t'' @ [0xEC] @ ascii ''m''"

definition kw_xuat :: js_string where
  \<comment> \<open>'xu<U+1EA5>t'\<close>
  kw_xuat_def [literal_defs]: "kw_xuat = ascii ''xu'' @ [0x1EA5] @ ascii ''t''"

definition kw_bao_cao :: js_string where
  \<comment> \<open>'b<U+00E1>o c<U+00E1>o'\<close>
  kw_bao_cao_def [literal_defs]: "kw_bao_cao = ascii ''b'' @ [0xE1] @ ascii ''o c'' @ [0xE1] @ ascii ''o''"

definition kw_excel :: js_string where
  \<comment> \<open>'excel'\<close>
  kw_excel_def [literal_defs]: "kw_excel = ascii ''excel''"

definition kw_pdf :: js_string where
  \<comment> \<open>'pdf'\<close>
  kw_pdf_def [literal_defs]: "kw_pdf = ascii ''pdf''"

definition kw_file :: js_string where
  \<comment> \<open>'file'\<close>
  kw_file_def [literal_defs]: "kw_file = ascii ''file''"

definition kw_loc :: js_string where
  \<comment> \<open>'l<U+1ECD>c'\<close>
  kw_loc_def [literal_defs]: "kw_loc = ascii ''l'' @ [0x1ECD] @ ascii ''c''"

definition kw_ngay :: js_string where
  \<comment> \<open>'ng<U+00E0>y'\<close>
  kw_ngay_def [literal_defs]: "kw_ngay = ascii ''ng'' @ [0xE0] @ ascii ''y''"

definition kw_thang :: js_string where
  \<comment> \<open>'th<U+00E1>ng'\<close>
  kw_thang_def [literal_defs]: "kw_thang = ascii ''th'' @ [0xE1] @ ascii ''ng''"

definition kw_quan_ly :: js_string where
  \<comment> \<open>'qu<U+1EA3>n l<U+00FD>'\<close>
  kw_quan_ly_def [literal_defs]: "kw_quan_ly = ascii ''qu'' @ [0x1EA3] @ ascii ''n l'' @ [0xFD]"

definition kw_thong_ke :: js_string where
  \<comment> \<open>'th<U+1ED1>ng k<U+00EA>'\<close>
  kw_thong_ke_def [literal_defs]: "kw_thong_ke = ascii ''th'' @ [0x1ED1] @ ascii ''ng k'' @ [0xEA]"

definition kw_so_lieu :: js_string where
  \<comment> \<open>'s<U+1ED1> li<U+1EC7>u'\<close>
  kw_so_lieu_def [literal_defs]: "kw_so_lieu = ascii ''s'' @ [0x1ED1] @ ascii '' li'' @ [0x1EC7] @ ascii ''u''"

definition kw_mo_camera :: js_string where
  \<comment> \<open>'m<U+1EDF> camera'\<close>
  kw_mo_camera_def [literal_defs]: "kw_mo_camera = ascii ''m'' @ [0x1EDF] @ ascii '' camera''"

definition kw_bat_camera :: js_string where
  \<comment> \<open>'b<U+1EAD>t camera'\<close>
  kw_bat_camera_def [literal_defs]: "kw_bat_camera = ascii ''b'' @ [0x1EAD] @ ascii ''t camera''"

definition kw_chup_anh :: js_string where
  \<comment> \<open>'ch<U+1EE5>p <U+1EA3>nh'\<close>
  kw_chup_anh_def [literal_defs]: "kw_chup_anh = ascii ''ch'' @ [0x1EE5] @ ascii ''p '' @ [0x1EA3] @ ascii ''nh''"

definition kw_dong_camera :: js_string where
  \<comment> \<open>'<U+0111><U+00F3>ng camera'\<close>
  kw_dong_camera_def [literal_defs]: "kw_dong_camera = [0x111, 0xF3] @ ascii ''ng camera''"

definition kw_tat_camera :: js_string where
  \<comment> \<open>'t<U+1EAF>t camera'\<close>
  kw_tat_camera_def [literal_defs]: "kw_tat_camera = ascii ''t'' @ [0x1EAF] @ ascii ''t camera''"

definition kw_chup :: js_string where
  \<comment> \<open>'ch<U+1EE5>p'\<close>
  kw_chup_def [literal_defs]: "kw_chup = ascii ''ch'' @ [0x1EE5] @ ascii ''p''"

definition kw_xu_ly :: js_string where
  \<comment> \<open>'x<U+1EED> l<U+00FD>'\<close>
  kw_xu_ly_def [literal_defs]: "kw_xu_ly = ascii ''x'' @ [0x1EED] @ ascii '' l'' @ [0xFD]"

definition kw_phan_tich :: js_string where
  \<comment> \<open>'ph<U+00E2>n t<U+00ED>ch'\<close>
  kw_phan_tich_def [literal_defs]: "kw_phan_tich = ascii ''ph'' @ [0xE2] @ ascii ''n t'' @ [0xED] @ ascii ''ch''"

definition kw_ocr :: js_string where
  \<comment> \<open>'ocr'\<close>
  kw_ocr_def [literal_defs]: "kw_ocr = ascii ''ocr''"

definition kw_upload :: js_string where
  \<comment> \<open>'upload'\<close>
  kw_upload_def [literal_defs]: "kw_upload = ascii ''upload''"

definition kw_tai_len :: js_string where
  \<comment> \<open>'t<U+1EA3>i l<U+00EA>n'\<close>
  kw_tai_len_def [literal_defs]: "kw_tai_len = ascii ''t'' @ [0x1EA3] @ ascii ''i l'' @ [0xEA] @ ascii ''n''"

definition kw_lam_gi :: js_string where
  \<comment> \<open>'l<U+00E0>m g<U+00EC>'\<close>
  kw_lam_gi_def [literal_defs]: "kw_lam_gi = ascii ''l'' @ [0xE0] @ ascii ''m g'' @ [0xEC]"

definition kw_chuc_nang :: js_string where
  \<comment> \<open>'ch<U+1EE9>c n<U+0103>ng'\<close>
  kw_chuc_nang_def [literal_defs]: "kw_chuc_nang = ascii ''ch'' @ [0x1EE9] @ ascii ''c n'' @ [0x103] @ ascii ''ng''"

definition kw_features :: js_string where
  \<comment> \<open>'features'\<close>
  kw_features_def [literal_defs]: "kw_features = ascii ''features''"

definition kw_capabilities :: js_string where
  \<comment> \<open>'capabilities'\<close>
  kw_capabilities_def [literal_defs]: "kw_capabilities = ascii ''capabilities''"

definition kw_co_the :: js_string where
  \<comment> \<open>'c<U+00F3> th<U+1EC3>'\<close>
  kw_co_the_def [literal_defs]: "kw_co_the = ascii ''c'' @ [0xF3] @ ascii '' th'' @ [0x1EC3]"

definition kw_ban :: js_string where
  \<comment> \<open>'b<U+1EA1>n'\<close>
  kw_ban_def [literal_defs]: "kw_ban = ascii ''b'' @ [0x1EA1] @ ascii ''n''"

definition kw_bot :: js_string where
  \<comment> \<open>'bot'\<close>
  kw_bot_def [literal_defs]: "kw_bot = ascii ''bot''"

definition kw_chatbot :: js_string where
  \<comment> \<open>'chatbot'\<close>
  kw_chatbot_def [literal_defs]: "kw_chatbot = ascii ''chatbot''"

definition kw_he_thong :: js_string where
  \<comment> \<open>'h<U+1EC7> th<U+1ED1>ng'\<close>
  kw_he_thong_def [literal_defs]: "kw_he_thong = ascii ''h'' @ [0x1EC7] @ ascii '' th'' @ [0x1ED1] @ ascii ''ng''"

definition sub_Xem_danh_sach :: js_string where
  \<comment> \<open>'Xem danh s<U+00E1>ch'\<close>
  sub_Xem_danh_sach_def [literal_defs]: "sub_Xem_danh_sach = ascii ''Xem danh s'' @ [0xE1] @ ascii ''ch''"

definition sub_Tim_kiem :: js_string where
  \<comment> \<open>'T<U+00EC>m ki<U+1EBF>m'\<close>
  sub_Tim_kiem_def [literal_defs]: "sub_Tim_kiem = ascii ''T'' @ [0xEC] @ ascii ''m ki'' @ [0x1EBF] @ ascii ''m''"

definition sub_Loc_theo_ngay :: js_string where
  \<comment> \<open>'L<U+1ECD>c theo ng<U+00E0>y'\<close>
  sub_Loc_theo_ngay_def [literal_defs]: "sub_Loc_theo_ngay = ascii ''L'' @ [0x1ECD] @ ascii ''c theo ng'' @ [0xE0] @ ascii ''y''"

definition sub_Xuat_bao_cao :: js_string where
  \<comment> \<open>'Xu<U+1EA5>t b<U+00E1>o c<U+00E1>o'\<close>
  sub_Xuat_bao_cao_def [literal_defs]: "sub_Xuat_bao_cao = ascii ''Xu'' @ [0x1EA5] @ ascii ''t b'' @ [0xE1] @ ascii ''o c'' @ [0xE1] @ ascii ''o''"

definition sub_Thong_ke :: js_string where
  \<comment> \<open>'Th<U+1ED1>ng k<U+00EA>'\<close>
  sub_Thong_ke_def [literal_defs]: "sub_Thong_ke = ascii ''Th'' @ [0x1ED1] @ ascii ''ng k'' @ [0xEA]"

definition label_view_list :: js_string where
  \<comment> \<open>'<U+1F4CB> Xem danh s<U+00E1>ch h<U+00F3>a <U+0111><U+01A1>n'\<close>
  label_view_list_def [literal_defs]: "label_view_list = [0xD83D, 0xDCCB] @ ascii '' Xem danh s'' @ [0xE1] @ ascii ''ch h'' @ [0xF3] @ ascii ''a '' @ [0x111, 0x1A1] @ ascii ''n''"

definition label_search :: js_string where
  \<comment> \<open>'<U+1F50D> T<U+00EC>m ki<U+1EBF>m h<U+00F3>a <U+0111><U+01A1>n'\<close>
  label_search_def [literal_defs]: "label_search = [0xD83D, 0xDD0D] @ ascii '' T'' @ [0xEC] @ ascii ''m ki'' @ [0x1EBF] @ ascii ''m h'' @ [0xF3] @ ascii ''a '' @ [0x111, 0x1A1] @ ascii ''n''"

definition label_export :: js_string where
  \<comment> \<open>'<U+1F4CA> Xu<U+1EA5>t b<U+00E1>o c<U+00E1>o'\<close>
  label_export_def [literal_defs]: "label_export = [0xD83D, 0xDCCA] @ ascii '' Xu'' @ [0x1EA5] @ ascii ''t b'' @ [0xE1] @ ascii ''o c'' @ [0xE1] @ ascii ''o''"

definition label_filter :: js_string where
  \<comment> \<open>'<U+1F4C5> L<U+1ECD>c theo ng<U+00E0>y'\<close>
  label_filter_def [literal_defs]: "label_filter = [0xD83D, 0xDCC5] @ ascii '' L'' @ [0x1ECD] @ ascii ''c theo ng'' @ [0xE0] @ ascii ''y''"

definition label_statistics :: js_string where
  \<comment> \<open>'<U+1F4C8> Th<U+1ED1>ng k<U+00EA>'\<close>
  label_statistics_def [literal_defs]: "label_statistics = [0xD83D, 0xDCC8] @ ascii '' Th'' @ [0x1ED1] @ ascii ''ng k'' @ [0xEA]"

definition str_error :: js_string where
  \<comment> \<open>'error'\<close>
  str_error_def [literal_defs]: "str_error = ascii ''error''"

definition str_OCR_NOT_AVAILABLE :: js_string where
  \<comment> \<open>'OCR_NOT_AVAILABLE'\<close>
  str_OCR_NOT_AVAILABLE_def [literal_defs]: "str_OCR_NOT_AVAILABLE = ascii ''OCR_NOT_AVAILABLE''"

definition str_momo_payment :: js_string where
  \<comment> \<open>'momo_payment'\<close>
  str_momo_payment_def [literal_defs]: "str_momo_payment = ascii ''momo_payment''"

definition str_electricity :: js_string where
  \<comment> \<open>'electricity'\<close>
  str_electricity_def [literal_defs]: "str_electricity = ascii ''electricity''"

definition str_all :: js_string where
  \<comment> \<open>'all'\<close>
  str_all_def [literal_defs]: "str_all = ascii ''all''"

section \<open>Data of the dashboard\<close>

datatype js_file = File (file_name: js_string)

text \<open>
  The fields of an invoice that the dashboard and the management page read. A number is
  a real: the invoices come from JSON replies, which carry finite numbers only.
\<close>

record invoice =
  invoice_code :: js_string
  invoice_date :: js_string
  seller_name :: js_string
  buyer_name :: js_string
  total_amount :: js_string
  invoice_type :: js_string
  confidence :: real

datatype confidence_icon = IconCheck | IconWarning | IconCross

datatype type_label = TypeMoMo | TypeElectricity | TypeOther

record invoice_row =
  row_index :: nat
  row_type :: type_label
  row_code :: js_string
  row_date :: js_string
  row_seller :: js_string
  row_buyer :: js_string
  row_total :: js_string
  row_icon :: confidence_icon
  row_percent :: real

text \<open>
  The text of a chat message. \<open>Raw\<close> carries a string that comes from outside the
  component (what the user typed, a button label, the chat service's reply); every other
  constructor stands for one template literal of the source, with the values it
  interpolates as arguments.
\<close>

datatype msg_text =
    Raw js_string
  | MsgWelcome
  | TxtProcessRequest "js_string option"
  | MsgChatError
  | MsgListEmpty
  | MsgInvoiceList nat bool "invoice_row list"
  | MsgSearchPrompt
  | MsgFilterPrompt
  | MsgExportRedirect
  | MsgStatistics
  | MsgActionError
  | MsgGotoManagement
  | MsgCameraOpened
  | MsgCameraAlreadyOpen
  | MsgCameraClosed
  | MsgCameraNotOpen
  | MsgPhotoCaptured
  | MsgNoInvoiceToProcess
  | MsgUploadHelp
  | MsgOcrNotAvailable js_string js_string "js_string list" js_string
  | MsgAnalyzing
  | MsgProcessed confidence_icon real bool invoice "js_string option" bool
  | MsgProcessError
  | MsgNextAction
  | MsgFileLoaded js_string

datatype sender = User | Bot

record message =
  msg_id :: nat
  msg_body :: msg_text
  msg_sender :: sender
  msg_time :: js_string

datatype view = Dashboard | Invoices

text \<open>A callback handed to \<^verbatim>\<open>setTimeout\<close>, with its delay in milliseconds.\<close>

datatype timer = TimerSetViewInvoices | TimerNextAction

text \<open>The requests a handler sends out of the component, in the order it sends them.\<close>

datatype call = FetchChat js_string | FetchInvoices | FetchUpload "js_file option"
  | GetUserMedia | Alert

text \<open>
  The state of the component: its \<^verbatim>\<open>useState\<close> cells, the stream attached to the video
  element, the pending timers and the log of requests sent.
\<close>

record session =
  currentView :: view
  messages :: "message list"
  inputMessage :: js_string
  uploadedFile :: "js_file option"
  cameraActive :: bool
  isTyping :: bool
  isProcessing :: bool
  showQuickSuggestions :: bool
  videoStream :: bool
  timers :: "(nat \<times> timer) list"
  calls :: "call list"

subsection \<open>The world outside the component\<close>

record ocr_details =
  det_reason :: js_string
  det_instructions :: "js_string list"
  det_download_url :: js_string

text \<open>The JSON body of the reply to \<^verbatim>\<open>POST /api/upload\<close>, as the dashboard reads it.\<close>

record upload_body =
  body_status :: "js_string option"
  body_error :: "js_string option"
  body_message :: js_string
  body_details :: "ocr_details option"
  body_invoice :: "invoice option"
  body_ocr_text :: "js_string option"

text \<open>
  What the upload request comes to: \<open>UploadThrows\<close> when \<^verbatim>\<open>fetch\<close> or the parsing of
  the body throws, otherwise \<^verbatim>\<open>response.ok\<close> and the body.
\<close>

datatype upload_result =
    UploadThrows
  | UploadResponse bool upload_body

text \<open>
  What one run of a handler gets from outside: the runtime's \<^verbatim>\<open>toLowerCase\<close>, the clock,
  the replies of the three endpoints (\<open>None\<close> when the request fails or the reply is not
  ok), whether the browser grants the camera, and the state of the video and canvas
  elements.
\<close>

record env =
  toLowerCase :: "js_string \<Rightarrow> js_string"
  clock :: js_string
  chatApi :: "js_string \<Rightarrow> js_string option"
  invoicesApi :: "invoice list option"
  uploadApi :: "js_file option \<Rightarrow> upload_result"
  cameraGranted :: bool
  videoRef :: bool
  canvasRef :: bool
  canvasContext :: bool
  toBlob :: "js_file option"

section \<open>The handlers of \<^verbatim>\<open>UserDashboard\<close>\<close>

text \<open>
  A handler reads the state of the render it was created in and queues its updates; the
  model passes the state through. Scrolling, console output and the value shown by the
  file input are not part of the state.
\<close>

definition addMessage :: "env \<Rightarrow> sender \<Rightarrow> msg_text \<Rightarrow> session \<Rightarrow> session" where
  "addMessage e who t s =
     s\<lparr>messages := messages s @
          [\<lparr>msg_id = length (messages s) + 1, msg_body = t, msg_sender = who,
            msg_time = clock e\<rparr>]\<rparr>"

definition addBotMessage :: "env \<Rightarrow> msg_text \<Rightarrow> session \<Rightarrow> session" where
  "addBotMessage e t s = addMessage e Bot t s"

definition confidenceIcon :: "real \<Rightarrow> confidence_icon" where
  "confidenceIcon c = (if c \<ge> 0.8 then IconCheck else if c \<ge> 0.6 then IconWarning else IconCross)"

definition typeLabel :: "js_string \<Rightarrow> type_label" where
  "typeLabel t =
     (if t = str_momo_payment then TypeMoMo
      else if t = str_electricity then TypeElectricity else TypeOther)"

definition invoiceRow :: "nat \<Rightarrow> invoice \<Rightarrow> invoice_row" where
  "invoiceRow idx iv =
     \<lparr>row_index = idx + 1, row_type = typeLabel (invoice_type iv),
      row_code = invoice_code iv, row_date = invoice_date iv,
      row_seller = seller_name iv, row_buyer = buyer_name iv,
      row_total = total_amount iv, row_icon = confidenceIcon (confidence iv),
      row_percent = confidence iv * 100\<rparr>"

definition displayLimit :: nat where
  "displayLimit = 10"

text \<open>The lines of the chat's invoice list: the first \<open>displayLimit\<close> invoices, numbered.\<close>

definition listRows :: "invoice list \<Rightarrow> invoice_row list" where
  "listRows invoices =
     map (\<lambda>(idx, iv). invoiceRow idx iv) (enumerate 0 (take displayLimit invoices))"

definition handleActionButton :: "env \<Rightarrow> js_string \<Rightarrow> session \<Rightarrow> session" where
  "handleActionButton e action s =
     (let s1 = (addMessage e User (Raw action) s)\<lparr>isTyping := True\<rparr> in
      if js_includes action sub_Xem_danh_sach then
        (let s2 = s1\<lparr>calls := calls s1 @ [FetchInvoices]\<rparr> in
         case invoicesApi e of
           None \<Rightarrow> addBotMessage e MsgActionError (s2\<lparr>isTyping := False\<rparr>)
         | Some invoices \<Rightarrow>
             if invoices = [] then addBotMessage e MsgListEmpty (s2\<lparr>isTyping := False\<rparr>)
             else
               addBotMessage e
                 (MsgInvoiceList (length invoices) (length invoices > displayLimit)
                    (listRows invoices))
                 (s2\<lparr>isTyping := False\<rparr>))
      else if js_includes action sub_Tim_kiem then
        addBotMessage e MsgSearchPrompt (s1\<lparr>isTyping := False\<rparr>)
      else if js_includes action sub_Loc_theo_ngay then
        addBotMessage e MsgFilterPrompt (s1\<lparr>isTyping := False\<rparr>)
      else if js_includes action sub_Xuat_bao_cao then
        (let s2 = addBotMessage e MsgExportRedirect (s1\<lparr>isTyping := False\<rparr>) in
         s2\<lparr>timers := timers s2 @ [(1000, TimerSetViewInvoices)]\<rparr>)
      else if js_includes action sub_Thong_ke then
        addBotMessage e MsgStatistics (s1\<lparr>isTyping := False\<rparr>)
      else s1)"

definition handleStopCamera :: "env \<Rightarrow> session \<Rightarrow> session" where
  "handleStopCamera e s =
     s\<lparr>videoStream := (if videoRef e \<and> videoStream s then False else videoStream s),
       cameraActive := False\<rparr>"

definition handleStartCamera :: "env \<Rightarrow> session \<Rightarrow> session" where
  "handleStartCamera e s =
     (let s1 = s\<lparr>uploadedFile := None, cameraActive := True,
                  calls := calls s @ [GetUserMedia]\<rparr> in
      if cameraGranted e then
        (if videoRef e then s1\<lparr>videoStream := True\<rparr> else s1)
      else s1\<lparr>cameraActive := False, calls := calls s1 @ [Alert]\<rparr>)"

definition handleCapturePhoto :: "env \<Rightarrow> session \<Rightarrow> session" where
  "handleCapturePhoto e s =
     (if videoRef e \<and> canvasRef e then
        (if canvasContext e then
           (case toBlob e of
              Some f \<Rightarrow> handleStopCamera e (s\<lparr>uploadedFile := Some f\<rparr>)
            | None \<Rightarrow> s)
         else s)
      else s)"

definition handleFileUpload :: "env \<Rightarrow> js_file list \<Rightarrow> session \<Rightarrow> session" where
  "handleFileUpload e files s =
     (case files of
        f # _ \<Rightarrow>
          addBotMessage e (MsgFileLoaded (file_name f))
            (s\<lparr>uploadedFile := Some f, cameraActive := False\<rparr>)
      | [] \<Rightarrow> s)"

text \<open>The button that removes the chosen file (its \<^verbatim>\<open>onClick\<close> is written inline).\<close>

definition removeFile :: "session \<Rightarrow> session" where
  "removeFile s = s\<lparr>uploadedFile := None\<rparr>"

text \<open>
  \<^verbatim>\<open>handleProcessInvoice\<close>. \<open>processFailed\<close> is its \<^verbatim>\<open>catch\<close> followed by its
  \<^verbatim>\<open>finally\<close>. Reading a property of a missing \<^verbatim>\<open>details\<close> or \<^verbatim>\<open>invoice\<close> throws
  and ends there too.
\<close>

definition processFailed :: "env \<Rightarrow> session \<Rightarrow> session" where
  "processFailed e s = (addBotMessage e MsgProcessError (s\<lparr>isTyping := False\<rparr>))\<lparr>isProcessing := False\<rparr>"

definition processedMessage :: "upload_body \<Rightarrow> invoice \<Rightarrow> msg_text" where
  "processedMessage d iv =
     MsgProcessed (confidenceIcon (confidence iv)) (confidence iv * 100)
       (confidence iv < 0.6) iv
       (case body_ocr_text d of
          Some t \<Rightarrow> if t \<noteq> [] \<and> confidence iv < 0.8 then Some (take 200 t) else None
        | None \<Rightarrow> None)
       (confidence iv < 0.7)"

text \<open>
  The name in the user's request line: the pending file's name, or \<open>None\<close> for the
  words that stand for a camera picture when there is no file or its name is empty.
\<close>

definition pendingName :: "session \<Rightarrow> js_string option" where
  "pendingName s =
     (case uploadedFile s of
        Some f \<Rightarrow> if file_name f = [] then None else Some (file_name f)
      | None \<Rightarrow> None)"

definition handleProcessInvoice :: "env \<Rightarrow> session \<Rightarrow> session" where
  "handleProcessInvoice e s =
     (if uploadedFile s = None \<and> \<not> cameraActive s then s
      else
        (let s1 = (addMessage e User (TxtProcessRequest (pendingName s))
                     (s\<lparr>isProcessing := True\<rparr>))
                    \<lparr>isTyping := True\<rparr>;
             s2 = s1\<lparr>calls := calls s1 @ [FetchUpload (uploadedFile s)]\<rparr>
         in case uploadApi e (uploadedFile s) of
              UploadThrows \<Rightarrow> processFailed e s2
            | UploadResponse ok d \<Rightarrow>
                if body_status d = Some str_error \<and> body_error d = Some str_OCR_NOT_AVAILABLE
                then
                  (case body_details d of
                     None \<Rightarrow> processFailed e s2
                   | Some dt \<Rightarrow>
                       (addBotMessage e
                          (MsgOcrNotAvailable (body_message d) (det_reason dt)
                             (det_instructions dt) (det_download_url dt))
                          (s2\<lparr>isTyping := False\<rparr>))\<lparr>isProcessing := False\<rparr>)
                else if \<not> ok then processFailed e s2
                else
                  (case body_invoice d of
                     None \<Rightarrow> processFailed e (addBotMessage e MsgAnalyzing (s2\<lparr>isTyping := False\<rparr>))
                   | Some iv \<Rightarrow>
                       (let s3 = addBotMessage e MsgAnalyzing (s2\<lparr>isTyping := False\<rparr>);
                            s4 = (addBotMessage e (processedMessage d iv) s3)
                                   \<lparr>uploadedFile := None\<rparr>;
                            s5 = (if cameraActive s then handleStopCamera e s4 else s4)
                        in s5\<lparr>timers := timers s5 @ [(1000, TimerNextAction)],
                              isProcessing := False\<rparr>))))"

subsection \<open>The command router\<close>

text \<open>
  The conditions of the \<^verbatim>\<open>if\<close> chain of \<^verbatim>\<open>handleChatCommand\<close>, in its order, on the
  lower-cased and trimmed command.
\<close>

definition matchesViewList :: "js_string \<Rightarrow> bool" where
  "matchesViewList cmd =
     (js_includes cmd kw_xem \<and> (js_includes cmd kw_danh_sach \<or> js_includes cmd kw_hoa_don))"

definition matchesSearch :: "js_string \<Rightarrow> bool" where
  "matchesSearch cmd = (js_includes cmd kw_tim \<and> js_includes cmd kw_hoa_don)"

definition matchesExportInvoice :: "js_string \<Rightarrow> bool" where
  "matchesExportInvoice cmd = (js_includes cmd kw_xuat \<and> js_includes cmd kw_hoa_don)"

definition matchesExportReport :: "js_string \<Rightarrow> bool" where
  "matchesExportReport cmd =
     (js_includes cmd kw_xuat \<and>
      (js_includes cmd kw_bao_cao \<or> js_includes cmd kw_excel \<or> js_includes cmd kw_pdf
       \<or> js_includes cmd kw_file))"

definition matchesDateFilter :: "js_string \<Rightarrow> bool" where
  "matchesDateFilter cmd =
     (js_includes cmd kw_loc \<or>
      (js_includes cmd kw_hoa_don \<and> (js_includes cmd kw_ngay \<or> js_includes cmd kw_thang)
       \<and> \<not> js_includes cmd kw_xuat))"

definition matchesManage :: "js_string \<Rightarrow> bool" where
  "matchesManage cmd = (js_includes cmd kw_quan_ly \<and> js_includes cmd kw_hoa_don)"

definition matchesStatistics :: "js_string \<Rightarrow> bool" where
  "matchesStatistics cmd = (js_includes cmd kw_thong_ke \<or> js_includes cmd kw_so_lieu)"

definition matchesCameraStart :: "js_string \<Rightarrow> bool" where
  "matchesCameraStart cmd =
     (js_includes cmd kw_mo_camera \<or> js_includes cmd kw_bat_camera \<or> js_includes cmd kw_chup_anh)"

definition matchesCameraStop :: "js_string \<Rightarrow> bool" where
  "matchesCameraStop cmd = (js_includes cmd kw_dong_camera \<or> js_includes cmd kw_tat_camera)"

definition matchesCapture :: "bool \<Rightarrow> js_string \<Rightarrow> bool" where
  "matchesCapture camera cmd = (js_includes cmd kw_chup \<and> camera)"

definition matchesProcess :: "js_string \<Rightarrow> bool" where
  "matchesProcess cmd =
     (js_includes cmd kw_xu_ly \<or> js_includes cmd kw_phan_tich \<or> js_includes cmd kw_ocr)"

definition matchesUploadHelp :: "js_string \<Rightarrow> bool" where
  "matchesUploadHelp cmd = (js_includes cmd kw_upload \<or> js_includes cmd kw_tai_len)"

definition handleChatCommand :: "env \<Rightarrow> session \<Rightarrow> js_string \<Rightarrow> session \<times> bool" where
  "handleChatCommand e s command =
     (let cmd = trim (toLowerCase e command) in
      if matchesViewList cmd then (handleActionButton e label_view_list s, True)
      else if matchesSearch cmd then (handleActionButton e label_search s, True)
      else if matchesExportInvoice cmd then (handleActionButton e label_export s, True)
      else if matchesExportReport cmd then (handleActionButton e label_export s, True)
      else if matchesDateFilter cmd then (handleActionButton e label_filter s, True)
      else if matchesManage cmd then
        (let s1 = addBotMessage e MsgGotoManagement s in
         (s1\<lparr>timers := timers s1 @ [(500, TimerSetViewInvoices)]\<rparr>, True))
      else if matchesStatistics cmd then (handleActionButton e label_statistics s, True)
      else if matchesCameraStart cmd then
        (if \<not> cameraActive s then
           (addBotMessage e MsgCameraOpened (handleStartCamera e s), True)
         else (addBotMessage e MsgCameraAlreadyOpen s, True))
      else if matchesCameraStop cmd then
        (if cameraActive s then
           (addBotMessage e MsgCameraClosed (handleStopCamera e s), True)
         else (addBotMessage e MsgCameraNotOpen s, True))
      else if matchesCapture (cameraActive s) cmd then
        (addBotMessage e MsgPhotoCaptured (handleCapturePhoto e s), True)
      else if matchesProcess cmd then
        (if uploadedFile s \<noteq> None \<or> cameraActive s then (handleProcessInvoice e s, True)
         else (addBotMessage e MsgNoInvoiceToProcess s, True))
      else if matchesUploadHelp cmd then (addBotMessage e MsgUploadHelp s, True)
      else (s, False))"

text \<open>
  Which branch of the chain a normalised command takes, as a value: the intent the router
  selects, \<open>None\<close> when it returns \<^verbatim>\<open>false\<close>. \<open>dispatch\<close> is the body of that branch.
\<close>

datatype intent = ViewList | Search | Export | DateFilter | Manage | Statistics
  | CameraStart | CameraStop | CameraCapture | Process | UploadHelp

definition selectIntent :: "bool \<Rightarrow> js_string \<Rightarrow> intent option" where
  "selectIntent camera cmd =
     (if matchesViewList cmd then Some ViewList
      else if matchesSearch cmd then Some Search
      else if matchesExportInvoice cmd then Some Export
      else if matchesExportReport cmd then Some Export
      else if matchesDateFilter cmd then Some DateFilter
      else if matchesManage cmd then Some Manage
      else if matchesStatistics cmd then Some Statistics
      else if matchesCameraStart cmd then Some CameraStart
      else if matchesCameraStop cmd then Some CameraStop
      else if matchesCapture camera cmd then Some CameraCapture
      else if matchesProcess cmd then Some Process
      else if matchesUploadHelp cmd then Some UploadHelp
      else None)"

definition dispatch :: "env \<Rightarrow> session \<Rightarrow> intent \<Rightarrow> session" where
  "dispatch e s i =
     (case i of
        ViewList \<Rightarrow> handleActionButton e label_view_list s
      | Search \<Rightarrow> handleActionButton e label_search s
      | Export \<Rightarrow> handleActionButton e label_export s
      | DateFilter \<Rightarrow> handleActionButton e label_filter s
      | Manage \<Rightarrow>
          (let s1 = addBotMessage e MsgGotoManagement s in
           s1\<lparr>timers := timers s1 @ [(500, TimerSetViewInvoices)]\<rparr>)
      | Statistics \<Rightarrow> handleActionButton e label_statistics s
      | CameraStart \<Rightarrow>
          (if \<not> cameraActive s then addBotMessage e MsgCameraOpened (handleStartCamera e s)
           else addBotMessage e MsgCameraAlreadyOpen s)
      | CameraStop \<Rightarrow>
          (if cameraActive s then addBotMessage e MsgCameraClosed (handleStopCamera e s)
           else addBotMessage e MsgCameraNotOpen s)
      | CameraCapture \<Rightarrow> addBotMessage e MsgPhotoCaptured (handleCapturePhoto e s)
      | Process \<Rightarrow>
          (if uploadedFile s \<noteq> None \<or> cameraActive s then handleProcessInvoice e s
           else addBotMessage e MsgNoInvoiceToProcess s)
      | UploadHelp \<Rightarrow> addBotMessage e MsgUploadHelp s)"

text \<open>The intent selected for a raw command in a session.\<close>

definition routedIntent :: "env \<Rightarrow> session \<Rightarrow> js_string \<Rightarrow> intent option" where
  "routedIntent e s command = selectIntent (cameraActive s) (trim (toLowerCase e command))"

subsection \<open>Sending a chat message\<close>

definition isCapabilityQuestion :: "env \<Rightarrow> js_string \<Rightarrow> bool" where
  "isCapabilityQuestion e userMsg =
     (let m = toLowerCase e userMsg in
      (js_includes m kw_lam_gi \<or> js_includes m kw_chuc_nang \<or> js_includes m kw_features
       \<or> js_includes m kw_capabilities)
      \<and> (js_includes m kw_co_the \<or> js_includes m kw_ban \<or> js_includes m kw_bot
         \<or> js_includes m kw_chatbot \<or> js_includes m kw_he_thong))"

definition handleSendMessage :: "env \<Rightarrow> session \<Rightarrow> session" where
  "handleSendMessage e s =
     (if trim (inputMessage s) \<noteq> [] then
        (let userMsg = inputMessage s;
             s1 = (addMessage e User (Raw userMsg) s)
                    \<lparr>inputMessage := [], isTyping := True,
                     calls := calls s @ [FetchChat userMsg]\<rparr>
         in case chatApi e userMsg of
              None \<Rightarrow>
                (addBotMessage e MsgChatError (s1\<lparr>isTyping := False\<rparr>))
                  \<lparr>showQuickSuggestions := False\<rparr>
            | Some response \<Rightarrow>
                (case handleChatCommand e s1 userMsg of
                   (s2, isCommand) \<Rightarrow>
                     if \<not> isCommand then
                       (addBotMessage e (Raw response) (s2\<lparr>isTyping := False\<rparr>))
                         \<lparr>showQuickSuggestions := isCapabilityQuestion e userMsg\<rparr>
                     else s2\<lparr>isTyping := False\<rparr>))
      else s)"

text \<open>The state of the component when it is mounted.\<close>

definition initialSession :: session where
  "initialSession =
     \<lparr>currentView = Dashboard,
      messages = [\<lparr>msg_id = 1, msg_body = MsgWelcome, msg_sender = Bot,
                   msg_time = ascii ''10:30''\<rparr>],
      inputMessage = [], uploadedFile = None,
      cameraActive = False, isTyping = False, isProcessing = False,
      showQuickSuggestions = False, videoStream = False, timers = [], calls = []\<rparr>"

subsection \<open>The handlers that change the pending upload or the camera flag\<close>

datatype event = EvFileUpload "js_file list" | EvStartCamera | EvStopCamera | EvCapturePhoto
  | EvProcessInvoice | EvRemoveFile | EvChatCommand js_string | EvSendMessage

definition step :: "env \<Rightarrow> event \<Rightarrow> session \<Rightarrow> session" where
  "step e ev s =
     (case ev of
        EvFileUpload files \<Rightarrow> handleFileUpload e files s
      | EvStartCamera \<Rightarrow> handleStartCamera e s
      | EvStopCamera \<Rightarrow> handleStopCamera e s
      | EvCapturePhoto \<Rightarrow> handleCapturePhoto e s
      | EvProcessInvoice \<Rightarrow> handleProcessInvoice e s
      | EvRemoveFile \<Rightarrow> removeFile s
      | EvChatCommand c \<Rightarrow> fst (handleChatCommand e s c)
      | EvSendMessage \<Rightarrow> handleSendMessage e s)"

text \<open>A run of handlers, each with what the outside world answers during it.\<close>

fun run :: "(env \<times> event) list \<Rightarrow> session \<Rightarrow> session" where
  "run [] s = s"
| "run ((e, ev) # rest) s = run rest (step e ev s)"

definition atMostOne :: "session \<Rightarrow> bool" where
  "atMostOne s = (\<not> (uploadedFile s \<noteq> None \<and> cameraActive s))"

section \<open>The invoice management page\<close>

datatype confidence_color = Green | Yellow | Red

text \<open>\<^verbatim>\<open>getConfidenceColor\<close>: the colour classes of the confidence badge.\<close>

definition getConfidenceColor :: "real \<Rightarrow> confidence_color" where
  "getConfidenceColor c = (if c \<ge> 0.8 then Green else if c \<ge> 0.6 then Yellow else Red)"

definition filteredInvoices :: "env \<Rightarrow> js_string \<Rightarrow> js_string \<Rightarrow> invoice list \<Rightarrow> invoice list" where
  "filteredInvoices e searchTerm filterType invoices =
     filter (\<lambda>iv.
        (js_includes (toLowerCase e (invoice_code iv)) (toLowerCase e searchTerm)
         \<or> js_includes (toLowerCase e (buyer_name iv)) (toLowerCase e searchTerm)
         \<or> js_includes (toLowerCase e (seller_name iv)) (toLowerCase e searchTerm))
        \<and> (filterType = str_all \<or> invoice_type iv = filterType))
       invoices"

record table_row =
  tr_index :: nat
  tr_invoice :: invoice
  tr_color :: confidence_color
  tr_percent :: real

definition tableRows :: "env \<Rightarrow> js_string \<Rightarrow> js_string \<Rightarrow> invoice list \<Rightarrow> table_row list" where
  "tableRows e searchTerm filterType invoices =
     map (\<lambda>(idx, iv).
            \<lparr>tr_index = idx + 1, tr_invoice = iv,
             tr_color = getConfidenceColor (confidence iv), tr_percent = confidence iv * 100\<rparr>)
       (enumerate 0 (filteredInvoices e searchTerm filterType invoices))"

section \<open>The upload call of the API service\<close>

text \<open>
  \<^verbatim>\<open>APIService.uploadInvoice\<close> hands its caller the parsed body of an ok reply as it
  is, and turns everything else into an error message.
\<close>

datatype 'a upload_reply = ReplyOk 'a | ReplyNotOk "js_string option"

datatype 'a fetch_outcome = FetchAborted | FetchError js_string | FetchThrown
  | FetchReply "'a upload_reply"

definition str_Upload_failed :: js_string where
  str_Upload_failed_def [literal_defs]: "str_Upload_failed = ascii ''Upload failed''"

definition str_Upload_timeout :: js_string where
  str_Upload_timeout_def [literal_defs]: "str_Upload_timeout = ascii ''Upload timeout''"

definition uploadInvoice :: "'a fetch_outcome \<Rightarrow> js_string + 'a" where
  "uploadInvoice outcome =
     (case outcome of
        FetchReply (ReplyOk body) \<Rightarrow> Inr body
      | FetchReply (ReplyNotOk detail) \<Rightarrow>
          Inl (case detail of
                 Some d \<Rightarrow> if d \<noteq> [] then d else str_Upload_failed
               | None \<Rightarrow> str_Upload_failed)
      | FetchAborted \<Rightarrow> Inl str_Upload_timeout
      | FetchError m \<Rightarrow> Inl m
      | FetchThrown \<Rightarrow> Inl str_Upload_failed)"

section \<open>The server side of the pipeline\<close>

text \<open>
  Modelled from the spec: the Intake Gateway (section 4.1), whose code is not among the
  sources. It validates content type and size, fails with a validation error before any
  job is created, persists the raw bytes, creates an upload job with status queued,
  enqueues it, and returns the job id and status without waiting for recognition. The
  accepted content types and the size limit are parameters. The types below are the
  upload job of section 3, the request, and the server's state: jobs, queue, stored
  images, persisted records, the number of recognition calls made so far and the next
  job id.
\<close>

datatype job_status = Queued | Processing | Done | Failed | Cancelled

record upload_job =
  job_id :: nat
  owner_id :: nat
  image_ref :: nat
  job_state :: job_status
  submitted_at :: nat
  attempts :: nat

record upload_request =
  up_owner :: nat
  up_content_type :: js_string
  up_bytes :: "8 word list"

record intake_config =
  allowed_types :: "js_string list"
  max_size :: nat

record backend =
  jobs :: "upload_job list"
  queue :: "nat list"
  images :: "(nat \<times> 8 word list) list"
  records :: "(nat \<times> invoice) list"
  recognitions :: nat
  next_id :: nat

datatype intake_error = ValidationError

record upload_ack =
  ack_job_id :: nat
  ack_status :: job_status

text \<open>Modelled from the spec: the validation of content type and size (section 4.1).\<close>

definition validUpload :: "intake_config \<Rightarrow> upload_request \<Rightarrow> bool" where
  "validUpload cfg u =
     (up_content_type u \<in> set (allowed_types cfg) \<and> length (up_bytes u) \<le> max_size cfg)"

text \<open>
  Modelled from the spec: the Intake Gateway's one operation (section 4.1); the job's
  image reference is the job id under which the bytes are stored.
\<close>

definition intake :: "intake_config \<Rightarrow> nat \<Rightarrow> upload_request \<Rightarrow> backend \<Rightarrow> (intake_error + upload_ack) \<times> backend" where
  "intake cfg now u b =
     (if \<not> validUpload cfg u then (Inl ValidationError, b)
      else
        (let jid = next_id b;
             job = \<lparr>job_id = jid, owner_id = up_owner u, image_ref = jid, job_state = Queued,
                    submitted_at = now, attempts = 0\<rparr>
         in (Inr \<lparr>ack_job_id = jid, ack_status = Queued\<rparr>,
             b\<lparr>jobs := jobs b @ [job], queue := queue b @ [jid],
               images := images b @ [(jid, up_bytes u)], next_id := jid + 1\<rparr>)))"

text \<open>
  Modelled from the spec: the confidence scoring of the Field Extractor (section 4.4,
  step 3) and the upsert of the Invoice Store (section 4.5), whose code is not among the
  sources. The confidence is a weighted combination of the fraction of required fields
  that were populated and of the engine's own confidence when it is supplied, clipped to
  the unit interval; the weights are parameters. The store keys records by job id.
\<close>

record scoring =
  weight_fields :: real
  weight_engine :: real

record extraction =
  ex_fields :: invoice
  ex_populated :: nat
  ex_required :: nat
  ex_engine :: "real option"

text \<open>Modelled from the spec: clipping to the unit interval (section 4.4, step 3).\<close>

definition clip01 :: "real \<Rightarrow> real" where
  "clip01 x = max 0 (min 1 x)"

text \<open>Modelled from the spec: the confidence score (section 4.4, step 3).\<close>

definition scoreConfidence :: "scoring \<Rightarrow> nat \<Rightarrow> nat \<Rightarrow> real option \<Rightarrow> real" where
  "scoreConfidence w populated required engine =
     clip01 (weight_fields w * (if required = 0 then 0 else real populated / real required)
             + (case engine of Some c \<Rightarrow> weight_engine w * c | None \<Rightarrow> 0))"

text \<open>
  Modelled from the spec: the record the Field Extractor hands to the store, its
  confidence set by the scoring (section 4.4).
\<close>

definition extractRecord :: "scoring \<Rightarrow> extraction \<Rightarrow> invoice" where
  "extractRecord w x =
     (ex_fields x)\<lparr>confidence := scoreConfidence w (ex_populated x) (ex_required x) (ex_engine x)\<rparr>"

text \<open>Modelled from the spec: the store's upsert, keyed by job id (section 4.5).\<close>

primrec upsert :: "nat \<Rightarrow> invoice \<Rightarrow> (nat \<times> invoice) list \<Rightarrow> (nat \<times> invoice) list" where
  "upsert k r [] = [(k, r)]"
| "upsert k r (p # ps) = (if fst p = k then (k, r) # ps else p # upsert k r ps)"

text \<open>
  Modelled from the spec: the store after the pipeline has persisted a sequence of
  extractions, oldest first (data flow of section 2).
\<close>

definition persistAll :: "scoring \<Rightarrow> (nat \<times> extraction) list \<Rightarrow> (nat \<times> invoice) list" where
  "persistAll w xs = foldl (\<lambda>st (jid, x). upsert jid (extractRecord w x) st) [] xs"

section \<open>A sample environment\<close>

text \<open>
  Lower-casing of the letters of the Vietnamese alphabet (Basic Latin, Latin-1 and the
  Vietnamese letters of the Latin Extended blocks), code unit by code unit: the part of
  the runtime's \<^verbatim>\<open>toLowerCase\<close> that the examples below exercise.
\<close>

definition lowerUnit :: "16 word \<Rightarrow> 16 word" where
  "lowerUnit c =
     (if 0x41 \<le> c \<and> c \<le> 0x5A then c + 0x20
      else if 0xC0 \<le> c \<and> c \<le> 0xDE \<and> c \<noteq> 0xD7 then c + 0x20
      else if c \<in> set [0x102, 0x110, 0x128, 0x168, 0x1A0, 0x1AF] then c + 1
      else if 0x1EA0 \<le> c \<and> c \<le> 0x1EF9 \<and> \<not> bit c 0 then c + 1
      else c)"

definition toLowerCaseVi :: "js_string \<Rightarrow> js_string" where
  "toLowerCaseVi s = map lowerUnit s"

definition cmd_view_list :: js_string where
  \<comment> \<open>'xem danh s<U+00E1>ch h<U+00F3>a <U+0111><U+01A1>n'\<close>
  cmd_view_list_def [literal_defs]: "cmd_view_list = ascii ''xem danh s'' @ [0xE1] @ ascii ''ch h'' @ [0xF3] @ ascii ''a '' @ [0x111, 0x1A1] @ ascii ''n''"

definition sampleInvoice :: "real \<Rightarrow> invoice" where
  "sampleInvoice c =
     \<lparr>invoice_code = ascii ''INV-12345'', invoice_date = ascii ''01/11/2025'',
      seller_name = ascii ''EVN'', buyer_name = ascii ''Nguyen Van A'',
      total_amount = ascii ''1,690,000 VND'', invoice_type = str_electricity,
      confidence = c\<rparr>"

definition ocrUnavailableBody :: upload_body where
  "ocrUnavailableBody =
     \<lparr>body_status = Some str_error, body_error = Some str_OCR_NOT_AVAILABLE,
      body_message = ascii ''OCR is not available'',
      body_details = Some \<lparr>det_reason = ascii ''Tesseract is not installed'',
                           det_instructions = [ascii ''1. Download the installer'',
                                               ascii ''2. Add it to PATH''],
                           det_download_url = ascii ''https://example.org/tesseract''\<rparr>,
      body_invoice = None, body_ocr_text = None\<rparr>"

definition sampleEnv :: env where
  "sampleEnv =
     \<lparr>toLowerCase = toLowerCaseVi, clock = ascii ''10:31'',
      chatApi = (\<lambda>m. Some (ascii ''You said: '' @ m)),
      invoicesApi = Some [sampleInvoice 0.5],
      uploadApi = (\<lambda>f. UploadResponse False ocrUnavailableBody),
      cameraGranted = True, videoRef = True, canvasRef = True, canvasContext = True,
      toBlob = Some (File (ascii ''camera-1.jpg''))\<rparr>"

text \<open>Sample commands, already lower-cased and trimmed.\<close>

definition cmd_view_export_filter :: js_string where
  \<comment> \<open>'xem v<U+00E0> xu<U+1EA5>t h<U+00F3>a <U+0111><U+01A1>n, l<U+1ECD>c theo ng<U+00E0>y'\<close>
  cmd_view_export_filter_def [literal_defs]:
  "cmd_view_export_filter =
     ascii ''xem v'' @ [0xE0] @ ascii '' xu'' @ [0x1EA5] @ ascii ''t h'' @ [0xF3] @ ascii ''a ''
     @ [0x111, 0x1A1] @ ascii ''n, l'' @ [0x1ECD] @ ascii ''c theo ng'' @ [0xE0] @ ascii ''y''"

definition cmd_export_filter :: js_string where
  \<comment> \<open>'l<U+1ECD>c v<U+00E0> xu<U+1EA5>t h<U+00F3>a <U+0111><U+01A1>n theo ng<U+00E0>y'\<close>
  cmd_export_filter_def [literal_defs]:
  "cmd_export_filter =
     ascii ''l'' @ [0x1ECD] @ ascii ''c v'' @ [0xE0] @ ascii '' xu'' @ [0x1EA5] @ ascii ''t h''
     @ [0xF3] @ ascii ''a '' @ [0x111, 0x1A1] @ ascii ''n theo ng'' @ [0xE0] @ ascii ''y''"

definition cmd_process :: js_string where
  \<comment> \<open>'x<U+1EED> l<U+00FD>'\<close>
  cmd_process_def [literal_defs]: "cmd_process = ascii ''x'' @ [0x1EED] @ ascii '' l'' @ [0xFD]"

text \<open>Sample sessions: a message typed, with or without a chosen file.\<close>

definition sessionTyped :: "js_string \<Rightarrow> session" where
  "sessionTyped m = initialSession\<lparr>inputMessage := m\<rparr>"

definition sessionWithFile :: "js_string \<Rightarrow> session" where
  "sessionWithFile m =
     initialSession\<lparr>inputMessage := m, uploadedFile := Some (File (ascii ''invoice.png''))\<rparr>"

definition cmd_view_list_typed :: js_string where
  \<comment> \<open>'  XEM DANH S<U+00C1>CH H<U+00D3>A <U+0110><U+01A0>N '\<close>
  cmd_view_list_typed_def [literal_defs]:
  "cmd_view_list_typed =
     ascii ''  XEM DANH S'' @ [0xC1] @ ascii ''CH H'' @ [0xD3] @ ascii ''A '' @ [0x110, 0x1A0]
     @ ascii ''N ''"

text \<open>A sample upload, an empty server, and a sample scoring and extraction.\<close>

definition sampleConfig :: intake_config where
  "sampleConfig =
     \<lparr>allowed_types = [ascii ''image/png'', ascii ''image/jpeg''], max_size = 1000\<rparr>"

definition sampleUpload :: upload_request where
  "sampleUpload =
     \<lparr>up_owner = 7, up_content_type = ascii ''image/png'', up_bytes = [0x89, 0x50, 0x4E, 0x47]\<rparr>"

definition emptyBackend :: backend where
  "emptyBackend =
     \<lparr>jobs = [], queue = [], images = [], records = [], recognitions = 0, next_id = 1\<rparr>"

definition sampleScoring :: scoring where
  "sampleScoring = \<lparr>weight_fields = 0.7, weight_engine = 0.6\<rparr>"

definition sampleExtraction :: extraction where
  "sampleExtraction =
     \<lparr>ex_fields = sampleInvoice 0, ex_populated = 5, ex_required = 5, ex_engine = Some 0.9\<rparr>"

section \<open>Facts about the runtime's string operations\<close>

lemma js_includes_iff: "js_includes s sub \<longleftrightarrow> (\<exists>ps ss. s = ps @ sub @ ss)"
proof (induction s)
  case Nil
  then show ?case by auto
next
  case (Cons x xs)
  show ?case
  proof
    assume "js_includes (x # xs) sub"
    then consider "prefix sub (x # xs)" | "js_includes xs sub" by auto
    then show "\<exists>ps ss. x # xs = ps @ sub @ ss"
    proof cases
      case 1
      then obtain ss where "x # xs = sub @ ss" by (auto simp: prefix_def)
      then have "x # xs = [] @ sub @ ss" by simp
      then show ?thesis by blast
    next
      case 2
      then obtain ps ss where "xs = ps @ sub @ ss" using Cons.IH by blast
      then have "x # xs = (x # ps) @ sub @ ss" by simp
      then show ?thesis by blast
    qed
  next
    assume "\<exists>ps ss. x # xs = ps @ sub @ ss"
    then obtain ps ss where eq: "x # xs = ps @ sub @ ss" by blast
    show "js_includes (x # xs) sub"
    proof (cases ps)
      case Nil
      then have "prefix sub (x # xs)" using eq by (simp add: prefix_def)
      then show ?thesis by simp
    next
      case (Cons p ps')
      then have "xs = ps' @ sub @ ss" using eq by simp
      then have "js_includes xs sub" using Cons.IH by blast
      then show ?thesis by simp
    qed
  qed
qed

lemma trimEnd_snoc:
  "\<not> P a \<Longrightarrow> rev (dropWhile P (rev as @ [a])) = a # rev (dropWhile P (rev as))"
  by (simp add: dropWhile_append)

lemma trimStart_after_trimEnd:
  "dropWhile P (rev (dropWhile P (rev (dropWhile P s)))) = rev (dropWhile P (rev (dropWhile P s)))"
proof (cases "dropWhile P s")
  case Nil
  show ?thesis unfolding Nil by simp
next
  case (Cons a as)
  have na: "\<not> P a" using hd_dropWhile [of P s] Cons by simp
  show ?thesis unfolding Cons using na by (simp add: trimEnd_snoc)
qed

lemma trim_idem: "trim (trim s) = trim s"
  by (simp add: trim_def trimStart_after_trimEnd dropWhile_idem)

section \<open>The router as selection followed by dispatch\<close>

lemma handleChatCommand_dispatch:
  "handleChatCommand e s c =
     (case routedIntent e s c of
        None \<Rightarrow> (s, False)
      | Some i \<Rightarrow> (dispatch e s i, True))"
  unfolding handleChatCommand_def routedIntent_def selectIntent_def dispatch_def Let_def by simp

lemma handleChatCommand_matched:
  "snd (handleChatCommand e s c) \<longleftrightarrow> routedIntent e s c \<noteq> None"
  by (simp add: handleChatCommand_dispatch split: option.splits)

lemmas eval_defs =
  routedIntent_def selectIntent_def matchesViewList_def matchesSearch_def
  matchesExportInvoice_def matchesExportReport_def matchesDateFilter_def matchesManage_def
  matchesStatistics_def matchesCameraStart_def matchesCameraStop_def matchesCapture_def
  matchesProcess_def matchesUploadHelp_def trim_def isWhiteSpace_def ascii_def
  toLowerCaseVi_def lowerUnit_def sampleEnv_def initialSession_def

section \<open>Normalisation of the command\<close>

text \<open>
  C5. Routing does not depend on letter case or on white space around the command: the
  intent selected for a command, and the whole outcome of the router, are those for its
  lower-cased and trimmed form. The hypothesis is a fact about the runtime's
  \<^verbatim>\<open>toLowerCase\<close>, which the component takes from outside: lower-casing leaves the
  lower-cased and trimmed command as it is.
\<close>

theorem routing_normalisation_invariant:
  assumes "toLowerCase e (trim (toLowerCase e c)) = trim (toLowerCase e c)"
  shows "routedIntent e s (trim (toLowerCase e c)) = routedIntent e s c
         \<and> handleChatCommand e s (trim (toLowerCase e c)) = handleChatCommand e s c"
proof -
  have "routedIntent e s (trim (toLowerCase e c)) = routedIntent e s c"
    using assms by (simp add: routedIntent_def trim_idem)
  then show ?thesis by (simp add: handleChatCommand_dispatch)
qed

theorem routing_normalisation_invariant_witness:
  "toLowerCase sampleEnv (trim (toLowerCase sampleEnv (ascii ''  XEM Danh s'' @ [0xC1] @ ascii ''ch  '')))
     = trim (toLowerCase sampleEnv (ascii ''  XEM Danh s'' @ [0xC1] @ ascii ''ch  ''))
   \<and> routedIntent sampleEnv initialSession (ascii ''  XEM Danh s'' @ [0xC1] @ ascii ''ch  '')
     = Some ViewList
   \<and> routedIntent sampleEnv initialSession
        (trim (toLowerCase sampleEnv (ascii ''  XEM Danh s'' @ [0xC1] @ ascii ''ch  '')))
     = Some ViewList"
proof -
  have h: "toLowerCase sampleEnv (trim (toLowerCase sampleEnv (ascii ''  XEM Danh s'' @ [0xC1] @ ascii ''ch  '')))
     = trim (toLowerCase sampleEnv (ascii ''  XEM Danh s'' @ [0xC1] @ ascii ''ch  ''))"
    by (simp add: eval_defs)
  have r: "routedIntent sampleEnv initialSession (ascii ''  XEM Danh s'' @ [0xC1] @ ascii ''ch  '')
     = Some ViewList"
    by (simp add: eval_defs literal_defs)
  show ?thesis
    using h r routing_normalisation_invariant [OF h, of initialSession] by simp
qed

section \<open>What the handlers do to the pending upload and the camera flag\<close>

lemma addMessage_fields:
  "uploadedFile (addMessage e w t s) = uploadedFile s"
  "cameraActive (addMessage e w t s) = cameraActive s"
  "calls (addMessage e w t s) = calls s"
  "timers (addMessage e w t s) = timers s"
  "isTyping (addMessage e w t s) = isTyping s"
  "isProcessing (addMessage e w t s) = isProcessing s"
  by (simp_all add: addMessage_def)

lemma addBotMessage_fields:
  "uploadedFile (addBotMessage e t s) = uploadedFile s"
  "cameraActive (addBotMessage e t s) = cameraActive s"
  "calls (addBotMessage e t s) = calls s"
  "timers (addBotMessage e t s) = timers s"
  "isTyping (addBotMessage e t s) = isTyping s"
  "isProcessing (addBotMessage e t s) = isProcessing s"
  by (simp_all add: addBotMessage_def addMessage_fields)

lemma handleActionButton_frame:
  "uploadedFile (handleActionButton e a s) = uploadedFile s"
  "cameraActive (handleActionButton e a s) = cameraActive s"
  by (simp_all add: handleActionButton_def Let_def addMessage_fields addBotMessage_fields
        split: option.splits)

lemma handleStopCamera_fields:
  "uploadedFile (handleStopCamera e s) = uploadedFile s"
  "cameraActive (handleStopCamera e s) = False"
  "calls (handleStopCamera e s) = calls s"
  by (simp_all add: handleStopCamera_def)

lemma handleStartCamera_fields:
  "uploadedFile (handleStartCamera e s) = None"
  "cameraActive (handleStartCamera e s) = cameraGranted e"
  by (simp_all add: handleStartCamera_def Let_def)

lemma handleCapturePhoto_session:
  "(uploadedFile (handleCapturePhoto e s) = uploadedFile s \<and>
    cameraActive (handleCapturePhoto e s) = cameraActive s)
   \<or> (uploadedFile (handleCapturePhoto e s) \<noteq> None \<and> \<not> cameraActive (handleCapturePhoto e s))"
  by (simp add: handleCapturePhoto_def handleStopCamera_fields split: option.splits)

lemma processFailed_fields:
  "uploadedFile (processFailed e s) = uploadedFile s"
  "cameraActive (processFailed e s) = cameraActive s"
  "calls (processFailed e s) = calls s"
  by (simp_all add: processFailed_def addBotMessage_fields)

lemmas frame_simps =
  addMessage_fields addBotMessage_fields handleStopCamera_fields handleStartCamera_fields
  processFailed_fields

lemma handleProcessInvoice_session:
  "(uploadedFile (handleProcessInvoice e s) = uploadedFile s \<and>
    cameraActive (handleProcessInvoice e s) = cameraActive s)
   \<or> (uploadedFile (handleProcessInvoice e s) = None \<and> \<not> cameraActive (handleProcessInvoice e s))"
  by (simp add: handleProcessInvoice_def Let_def frame_simps
        split: upload_result.splits option.splits)

section \<open>The fallback path\<close>

text \<open>
  C4. When no intent pattern matches the text that is sent, the pending upload and the
  camera flag are what they were before: the router returns the state as it got it, and
  the rest of sending a message does not write the two fields.
\<close>

theorem fallback_keeps_session_state:
  assumes "routedIntent e s (inputMessage s) = None"
  shows "handleChatCommand e s (inputMessage s) = (s, False)
         \<and> uploadedFile (handleSendMessage e s) = uploadedFile s
         \<and> cameraActive (handleSendMessage e s) = cameraActive s"
proof -
  have router: "handleChatCommand e s' (inputMessage s) = (s', False)"
    if "cameraActive s' = cameraActive s" for s'
  proof -
    have "routedIntent e s' (inputMessage s) = None"
      using assms that by (simp add: routedIntent_def)
    then show ?thesis by (simp add: handleChatCommand_dispatch)
  qed
  have sent: "uploadedFile (handleSendMessage e s) = uploadedFile s
              \<and> cameraActive (handleSendMessage e s) = cameraActive s"
    unfolding handleSendMessage_def Let_def
    by (simp add: router frame_simps split: option.splits)
  show ?thesis using router [of s] sent by simp
qed

theorem fallback_keeps_session_state_witness:
  "routedIntent sampleEnv (sessionWithFile (ascii ''Hello'')) (ascii ''Hello'') = None
   \<and> uploadedFile (handleSendMessage sampleEnv (sessionWithFile (ascii ''Hello'')))
       = Some (File (ascii ''invoice.png''))
   \<and> \<not> cameraActive (handleSendMessage sampleEnv (sessionWithFile (ascii ''Hello'')))"
proof -
  have i: "inputMessage (sessionWithFile (ascii ''Hello'')) = ascii ''Hello''"
    and u: "uploadedFile (sessionWithFile (ascii ''Hello'')) = Some (File (ascii ''invoice.png''))"
    and c: "\<not> cameraActive (sessionWithFile (ascii ''Hello''))"
    by (simp_all add: sessionWithFile_def initialSession_def)
  have "routedIntent sampleEnv (sessionWithFile (ascii ''Hello'')) (ascii ''Hello'') = None"
    by (simp add: sessionWithFile_def eval_defs literal_defs)
  then have h: "routedIntent sampleEnv (sessionWithFile (ascii ''Hello''))
                  (inputMessage (sessionWithFile (ascii ''Hello''))) = None"
    by (simp only: i)
  from fallback_keeps_session_state [OF h] h show ?thesis
    by (simp only: i u c simp_thms)
qed

section \<open>The process command without anything to process\<close>

text \<open>
  C10. A command routed to the process intent, arriving when no file is pending and the
  camera is off, is answered by the warning alone: the router returns \<^verbatim>\<open>true\<close>, so the
  text counts as a command and the chat reply is not shown; no request is sent by the
  router, \<^verbatim>\<open>handleProcessInvoice\<close> itself would return at once, and the pending
  upload and the camera flag stay as they are.
\<close>

theorem process_without_input_warns:
  assumes "routedIntent e s c = Some Process"
    and "uploadedFile s = None"
    and "\<not> cameraActive s"
  shows "handleChatCommand e s c = (addBotMessage e MsgNoInvoiceToProcess s, True)
         \<and> messages (fst (handleChatCommand e s c))
             = messages s @ [\<lparr>msg_id = length (messages s) + 1,
                                msg_body = MsgNoInvoiceToProcess, msg_sender = Bot,
                                msg_time = clock e\<rparr>]
         \<and> calls (fst (handleChatCommand e s c)) = calls s
         \<and> uploadedFile (fst (handleChatCommand e s c)) = None
         \<and> \<not> cameraActive (fst (handleChatCommand e s c))
         \<and> handleProcessInvoice e s = s"
proof -
  have r: "handleChatCommand e s c = (addBotMessage e MsgNoInvoiceToProcess s, True)"
    using assms by (simp add: handleChatCommand_dispatch dispatch_def)
  have m: "messages (addBotMessage e MsgNoInvoiceToProcess s)
           = messages s @ [\<lparr>msg_id = length (messages s) + 1,
                              msg_body = MsgNoInvoiceToProcess, msg_sender = Bot,
                              msg_time = clock e\<rparr>]"
    by (simp add: addBotMessage_def addMessage_def)
  have p: "handleProcessInvoice e s = s"
    using assms by (simp add: handleProcessInvoice_def)
  show ?thesis using assms r m p by (simp add: frame_simps)
qed

theorem process_without_input_warns_witness:
  "routedIntent sampleEnv initialSession cmd_process = Some Process
   \<and> uploadedFile initialSession = None \<and> \<not> cameraActive initialSession
   \<and> handleChatCommand sampleEnv initialSession cmd_process
       = (addBotMessage sampleEnv MsgNoInvoiceToProcess initialSession, True)
   \<and> calls (fst (handleChatCommand sampleEnv initialSession cmd_process)) = []"
proof -
  have h: "routedIntent sampleEnv initialSession cmd_process = Some Process"
    by (simp add: eval_defs literal_defs)
  have u: "uploadedFile initialSession = None" and c: "\<not> cameraActive initialSession"
    and k: "calls initialSession = []"
    by (simp_all add: initialSession_def)
  from process_without_input_warns [OF h u c] h u c show ?thesis
    by (simp add: k frame_simps)
qed

section \<open>The view-list command and the fallback\<close>

text \<open>
  C1, as amended. A command whose lower-cased and trimmed form is the sample sentence
  for viewing the invoice list selects the view-list intent, and its handler requests
  the invoice list. A text that is not blank, that matches no intent pattern and for
  which the chat service answers is sent to the service as it was typed, and the answer
  is appended as the bot's message unchanged. A blank text, one that is empty after
  trimming, is ignored: sending it leaves the whole state as it was, so no request is
  sent and no message is appended.
\<close>

theorem view_list_and_fallback:
  "(trim (toLowerCase e c) = cmd_view_list \<longrightarrow>
      routedIntent e s c = Some ViewList
      \<and> handleChatCommand e s c = (handleActionButton e label_view_list s, True)
      \<and> calls (handleActionButton e label_view_list s) = calls s @ [FetchInvoices])
   \<and> (trim (inputMessage s) \<noteq> [] \<and> chatApi e (inputMessage s) = Some r
        \<and> routedIntent e s (inputMessage s) = None \<longrightarrow>
      messages (handleSendMessage e s)
        = messages s @
          [\<lparr>msg_id = length (messages s) + 1, msg_body = Raw (inputMessage s),
            msg_sender = User, msg_time = clock e\<rparr>,
           \<lparr>msg_id = length (messages s) + 2, msg_body = Raw r,
            msg_sender = Bot, msg_time = clock e\<rparr>]
      \<and> calls (handleSendMessage e s) = calls s @ [FetchChat (inputMessage s)])
   \<and> (trim (inputMessage s) = [] \<longrightarrow>
        handleSendMessage e s = s
        \<and> calls (handleSendMessage e s) = calls s
        \<and> messages (handleSendMessage e s) = messages s)"
proof (intro conjI impI)
  assume n: "trim (toLowerCase e c) = cmd_view_list"
  have v: "matchesViewList cmd_view_list"
    by (simp add: matchesViewList_def ascii_def literal_defs)
  show i: "routedIntent e s c = Some ViewList"
    using n v by (simp add: routedIntent_def selectIntent_def)
  show "handleChatCommand e s c = (handleActionButton e label_view_list s, True)"
    using i by (simp add: handleChatCommand_dispatch dispatch_def)
next
  have "js_includes label_view_list sub_Xem_danh_sach"
    by (simp add: ascii_def literal_defs)
  then show "calls (handleActionButton e label_view_list s) = calls s @ [FetchInvoices]"
    by (simp add: handleActionButton_def Let_def frame_simps split: option.splits)
next
  assume a: "trim (inputMessage s) \<noteq> [] \<and> chatApi e (inputMessage s) = Some r
             \<and> routedIntent e s (inputMessage s) = None"
  have router: "handleChatCommand e s' (inputMessage s) = (s', False)"
    if "cameraActive s' = cameraActive s" for s'
  proof -
    have "routedIntent e s' (inputMessage s) = None"
      using a that by (simp add: routedIntent_def)
    then show ?thesis by (simp add: handleChatCommand_dispatch)
  qed
  show "messages (handleSendMessage e s)
        = messages s @
          [\<lparr>msg_id = length (messages s) + 1, msg_body = Raw (inputMessage s),
            msg_sender = User, msg_time = clock e\<rparr>,
           \<lparr>msg_id = length (messages s) + 2, msg_body = Raw r,
            msg_sender = Bot, msg_time = clock e\<rparr>]"
    using a unfolding handleSendMessage_def Let_def
    by (simp add: router addBotMessage_def addMessage_def)
  show "calls (handleSendMessage e s) = calls s @ [FetchChat (inputMessage s)]"
    using a unfolding handleSendMessage_def Let_def
    by (simp add: router frame_simps)
next
  assume b: "trim (inputMessage s) = []"
  show blank: "handleSendMessage e s = s"
    using b by (simp add: handleSendMessage_def)
  show "calls (handleSendMessage e s) = calls s"
    by (simp only: blank)
  show "messages (handleSendMessage e s) = messages s"
    by (simp only: blank)
qed

theorem view_list_and_fallback_witness:
  "trim (toLowerCase sampleEnv cmd_view_list_typed) = cmd_view_list
   \<and> routedIntent sampleEnv (sessionTyped (ascii ''Hello'')) cmd_view_list_typed
       = Some ViewList
   \<and> trim (inputMessage (sessionTyped (ascii ''Hello''))) \<noteq> []
   \<and> chatApi sampleEnv (inputMessage (sessionTyped (ascii ''Hello'')))
       = Some (ascii ''You said: Hello'')
   \<and> routedIntent sampleEnv (sessionTyped (ascii ''Hello''))
        (inputMessage (sessionTyped (ascii ''Hello''))) = None
   \<and> map msg_body (messages (handleSendMessage sampleEnv (sessionTyped (ascii ''Hello''))))
       = [MsgWelcome, Raw (ascii ''Hello''), Raw (ascii ''You said: Hello'')]
   \<and> trim (inputMessage (sessionTyped (ascii '' ''))) = []
   \<and> handleSendMessage sampleEnv (sessionTyped (ascii '' '')) = sessionTyped (ascii '' '')"
proof -
  have n: "trim (toLowerCase sampleEnv cmd_view_list_typed) = cmd_view_list"
    by (simp add: eval_defs literal_defs)
  have i: "inputMessage (sessionTyped (ascii ''Hello'')) = ascii ''Hello''"
    and m: "map msg_body (messages (sessionTyped (ascii ''Hello''))) = [MsgWelcome]"
    by (simp_all add: sessionTyped_def initialSession_def)
  have t: "trim (inputMessage (sessionTyped (ascii ''Hello''))) \<noteq> []"
    by (simp add: i) (simp add: trim_def isWhiteSpace_def ascii_def)
  have r: "chatApi sampleEnv (inputMessage (sessionTyped (ascii ''Hello'')))
           = Some (ascii ''You said: Hello'')"
    by (simp add: i) (simp add: sampleEnv_def ascii_def)
  have "routedIntent sampleEnv (sessionTyped (ascii ''Hello'')) (ascii ''Hello'') = None"
    by (simp add: sessionTyped_def eval_defs literal_defs)
  then have f: "routedIntent sampleEnv (sessionTyped (ascii ''Hello''))
                  (inputMessage (sessionTyped (ascii ''Hello''))) = None"
    by (simp only: i)
  note inst = view_list_and_fallback
         [where e = sampleEnv and c = cmd_view_list_typed
            and s = "sessionTyped (ascii ''Hello'')" and r = "ascii ''You said: Hello''"]
  have v: "routedIntent sampleEnv (sessionTyped (ascii ''Hello'')) cmd_view_list_typed
           = Some ViewList"
    using inst n by blast
  have "messages (handleSendMessage sampleEnv (sessionTyped (ascii ''Hello'')))
        = messages (sessionTyped (ascii ''Hello'')) @
          [\<lparr>msg_id = length (messages (sessionTyped (ascii ''Hello''))) + 1,
            msg_body = Raw (inputMessage (sessionTyped (ascii ''Hello''))),
            msg_sender = User, msg_time = clock sampleEnv\<rparr>,
           \<lparr>msg_id = length (messages (sessionTyped (ascii ''Hello''))) + 2,
            msg_body = Raw (ascii ''You said: Hello''),
            msg_sender = Bot, msg_time = clock sampleEnv\<rparr>]"
    using inst t r f by blast
  then have b: "map msg_body (messages (handleSendMessage sampleEnv (sessionTyped (ascii ''Hello''))))
                = [MsgWelcome, Raw (ascii ''Hello''), Raw (ascii ''You said: Hello'')]"
    using m by (simp add: i)
  have e: "trim (inputMessage (sessionTyped (ascii '' ''))) = []"
    by (simp add: sessionTyped_def initialSession_def trim_def isWhiteSpace_def ascii_def)
  have g: "handleSendMessage sampleEnv (sessionTyped (ascii '' '')) = sessionTyped (ascii '' '')"
    using e view_list_and_fallback
            [where e = sampleEnv and c = cmd_view_list_typed
               and s = "sessionTyped (ascii '' '')" and r = "ascii ''You said: Hello''"]
    by blast
  show ?thesis using n v t r f b e g by blast
qed

text \<open>
  The claim as it was stated fails on a blank text: it matches no intent pattern and the
  chat service would answer it, yet sending it changes nothing, because
  \<^verbatim>\<open>handleSendMessage\<close> acts only on a text that is not empty after trimming.
\<close>

theorem blank_input_not_forwarded_counterexample:
  "routedIntent sampleEnv (sessionTyped (ascii ''   ''))
     (inputMessage (sessionTyped (ascii ''   ''))) = None
   \<and> chatApi sampleEnv (inputMessage (sessionTyped (ascii ''   '')))
       = Some (ascii ''You said:    '')
   \<and> handleSendMessage sampleEnv (sessionTyped (ascii ''   '')) = sessionTyped (ascii ''   '')"
proof -
  have i: "inputMessage (sessionTyped (ascii ''   '')) = ascii ''   ''"
    by (simp add: sessionTyped_def initialSession_def)
  have "routedIntent sampleEnv (sessionTyped (ascii ''   '')) (ascii ''   '') = None"
    by (simp add: sessionTyped_def eval_defs literal_defs)
  moreover have "chatApi sampleEnv (ascii ''   '') = Some (ascii ''You said:    '')"
    by (simp add: sampleEnv_def ascii_def)
  moreover have "trim (ascii ''   '') = []"
    by (simp add: trim_def isWhiteSpace_def ascii_def)
  then have "handleSendMessage sampleEnv (sessionTyped (ascii ''   ''))
             = sessionTyped (ascii ''   '')"
    by (simp add: handleSendMessage_def i)
  ultimately show ?thesis by (simp only: i simp_thms)
qed

section \<open>Export before the date filter\<close>

text \<open>
  C3, as amended. A command that matches an export pattern is never handed to the
  date-filter handler. It is handed to the export handler when it matches neither the
  view-list nor the search pattern, which the chain tests first, whether or not it also
  matches the date-filter pattern.
\<close>

theorem export_before_date_filter:
  "((matchesExportInvoice cmd \<or> matchesExportReport cmd) \<longrightarrow>
      selectIntent cam cmd \<noteq> Some DateFilter)
   \<and> ((matchesExportInvoice cmd \<or> matchesExportReport cmd)
        \<and> \<not> matchesViewList cmd \<and> \<not> matchesSearch cmd \<longrightarrow>
      selectIntent cam cmd = Some Export
      \<and> (trim (toLowerCase e c) = cmd \<longrightarrow>
           handleChatCommand e s c = (handleActionButton e label_export s, True)))"
proof (intro conjI impI)
  assume "matchesExportInvoice cmd \<or> matchesExportReport cmd"
  then show "selectIntent cam cmd \<noteq> Some DateFilter"
    by (auto simp add: selectIntent_def)
next
  assume a: "(matchesExportInvoice cmd \<or> matchesExportReport cmd)
             \<and> \<not> matchesViewList cmd \<and> \<not> matchesSearch cmd"
  then show "selectIntent cam cmd = Some Export"
    by (auto simp add: selectIntent_def)
next
  assume a: "(matchesExportInvoice cmd \<or> matchesExportReport cmd)
             \<and> \<not> matchesViewList cmd \<and> \<not> matchesSearch cmd"
    and n: "trim (toLowerCase e c) = cmd"
  from a have "selectIntent (cameraActive s) cmd = Some Export"
    by (auto simp add: selectIntent_def)
  then have "routedIntent e s c = Some Export"
    using n by (simp add: routedIntent_def)
  then show "handleChatCommand e s c = (handleActionButton e label_export s, True)"
    by (simp add: handleChatCommand_dispatch dispatch_def)
qed

theorem export_before_date_filter_witness:
  "matchesExportInvoice cmd_export_filter \<and> matchesDateFilter cmd_export_filter
   \<and> \<not> matchesViewList cmd_export_filter \<and> \<not> matchesSearch cmd_export_filter
   \<and> trim (toLowerCase sampleEnv cmd_export_filter) = cmd_export_filter
   \<and> selectIntent False cmd_export_filter = Some Export
   \<and> handleChatCommand sampleEnv initialSession cmd_export_filter
       = (handleActionButton sampleEnv label_export initialSession, True)"
proof -
  have x: "matchesExportInvoice cmd_export_filter"
    and d: "matchesDateFilter cmd_export_filter"
    and v: "\<not> matchesViewList cmd_export_filter"
    and f: "\<not> matchesSearch cmd_export_filter"
    by (simp_all add: eval_defs literal_defs)
  have n: "trim (toLowerCase sampleEnv cmd_export_filter) = cmd_export_filter"
    by (simp add: eval_defs literal_defs)
  note inst = export_before_date_filter
         [where cmd = cmd_export_filter and cam = False and e = sampleEnv
            and c = cmd_export_filter and s = initialSession]
  show ?thesis using inst x d v f n by blast
qed

text \<open>
  The claim as it was stated fails on a command that asks to view as well: it matches an
  export pattern and the date-filter pattern, and the view-list handler answers it.
\<close>

theorem export_precedence_counterexample:
  "matchesExportInvoice cmd_view_export_filter \<and> matchesDateFilter cmd_view_export_filter
   \<and> trim (toLowerCase sampleEnv cmd_view_export_filter) = cmd_view_export_filter
   \<and> selectIntent False cmd_view_export_filter = Some ViewList
   \<and> handleChatCommand sampleEnv initialSession cmd_view_export_filter
       = (handleActionButton sampleEnv label_view_list initialSession, True)
   \<and> handleActionButton sampleEnv label_view_list initialSession
       \<noteq> handleActionButton sampleEnv label_export initialSession"
proof -
  have x: "matchesExportInvoice cmd_view_export_filter"
    and d: "matchesDateFilter cmd_view_export_filter"
    and v: "matchesViewList cmd_view_export_filter"
    by (simp_all add: eval_defs literal_defs)
  have n: "trim (toLowerCase sampleEnv cmd_view_export_filter) = cmd_view_export_filter"
    by (simp add: eval_defs literal_defs)
  have i: "selectIntent False cmd_view_export_filter = Some ViewList"
    using v by (simp add: selectIntent_def)
  have "routedIntent sampleEnv initialSession cmd_view_export_filter = Some ViewList"
    using v n by (simp add: routedIntent_def selectIntent_def)
  then have h: "handleChatCommand sampleEnv initialSession cmd_view_export_filter
       = (handleActionButton sampleEnv label_view_list initialSession, True)"
    by (simp add: handleChatCommand_dispatch dispatch_def)
  have "calls (handleActionButton sampleEnv label_view_list initialSession) = [FetchInvoices]"
    by (simp add: handleActionButton_def Let_def sampleEnv_def initialSession_def ascii_def
          literal_defs frame_simps)
  moreover
  have "calls (handleActionButton sampleEnv label_export initialSession) = []"
    by (simp add: handleActionButton_def Let_def sampleEnv_def initialSession_def ascii_def
          literal_defs frame_simps)
  ultimately
  have ne: "handleActionButton sampleEnv label_view_list initialSession
       \<noteq> handleActionButton sampleEnv label_export initialSession"
    by auto
  show ?thesis using x d n i h ne by blast
qed

section \<open>The recognition engine is not available\<close>

text \<open>
  C6. When the reply to the upload says that OCR is not available, the dashboard shows
  one message built from the reply's message, its reason, its instructions and its
  download link, after the user's request line. The upload was requested once, nothing
  is scheduled, no processed invoice is shown, and the pending upload and the camera
  flag are kept; typing and processing indicators are off.
\<close>

theorem ocr_unavailable_surfaced:
  assumes "uploadedFile s \<noteq> None \<or> cameraActive s"
    and "uploadApi e (uploadedFile s) = UploadResponse ok d"
    and "body_status d = Some str_error"
    and "body_error d = Some str_OCR_NOT_AVAILABLE"
    and "body_details d = Some dt"
  shows "messages (handleProcessInvoice e s)
         = messages s @
           [\<lparr>msg_id = length (messages s) + 1,
             msg_body = TxtProcessRequest (pendingName s),
             msg_sender = User, msg_time = clock e\<rparr>,
            \<lparr>msg_id = length (messages s) + 2,
             msg_body = MsgOcrNotAvailable (body_message d) (det_reason dt)
                          (det_instructions dt) (det_download_url dt),
             msg_sender = Bot, msg_time = clock e\<rparr>]
         \<and> calls (handleProcessInvoice e s) = calls s @ [FetchUpload (uploadedFile s)]
         \<and> timers (handleProcessInvoice e s) = timers s
         \<and> uploadedFile (handleProcessInvoice e s) = uploadedFile s
         \<and> cameraActive (handleProcessInvoice e s) = cameraActive s
         \<and> \<not> isProcessing (handleProcessInvoice e s)
         \<and> \<not> isTyping (handleProcessInvoice e s)"
  using assms
  by (auto simp add: handleProcessInvoice_def Let_def addBotMessage_def addMessage_def)

theorem ocr_unavailable_surfaced_witness:
  "uploadedFile (sessionWithFile []) = Some (File (ascii ''invoice.png''))
   \<and> uploadApi sampleEnv (uploadedFile (sessionWithFile []))
       = UploadResponse False ocrUnavailableBody
   \<and> body_status ocrUnavailableBody = Some str_error
   \<and> body_error ocrUnavailableBody = Some str_OCR_NOT_AVAILABLE
   \<and> body_details ocrUnavailableBody \<noteq> None
   \<and> map msg_body (messages (handleProcessInvoice sampleEnv (sessionWithFile [])))
       = [MsgWelcome, TxtProcessRequest (Some (ascii ''invoice.png'')),
          MsgOcrNotAvailable (ascii ''OCR is not available'')
            (ascii ''Tesseract is not installed'')
            [ascii ''1. Download the installer'', ascii ''2. Add it to PATH'']
            (ascii ''https://example.org/tesseract'')]
   \<and> calls (handleProcessInvoice sampleEnv (sessionWithFile []))
       = [FetchUpload (Some (File (ascii ''invoice.png'')))]
   \<and> uploadedFile (handleProcessInvoice sampleEnv (sessionWithFile []))
       = Some (File (ascii ''invoice.png''))"
proof -
  have u: "uploadedFile (sessionWithFile []) = Some (File (ascii ''invoice.png''))"
    and m: "map msg_body (messages (sessionWithFile [])) = [MsgWelcome]"
    and k: "calls (sessionWithFile []) = []"
    and p: "pendingName (sessionWithFile []) = Some (ascii ''invoice.png'')"
    by (simp_all add: sessionWithFile_def initialSession_def pendingName_def ascii_def)
  have h1: "uploadedFile (sessionWithFile []) \<noteq> None \<or> cameraActive (sessionWithFile [])"
    by (simp add: u)
  have h2: "uploadApi sampleEnv (uploadedFile (sessionWithFile []))
            = UploadResponse False ocrUnavailableBody"
    by (simp add: sampleEnv_def)
  have h3: "body_status ocrUnavailableBody = Some str_error"
    and h4: "body_error ocrUnavailableBody = Some str_OCR_NOT_AVAILABLE"
    and h5: "body_details ocrUnavailableBody
             = Some \<lparr>det_reason = ascii ''Tesseract is not installed'',
                      det_instructions = [ascii ''1. Download the installer'',
                                          ascii ''2. Add it to PATH''],
                      det_download_url = ascii ''https://example.org/tesseract''\<rparr>"
    and h6: "body_message ocrUnavailableBody = ascii ''OCR is not available''"
    by (simp_all add: ocrUnavailableBody_def)
  note inst = ocr_unavailable_surfaced [OF h1 h2 h3 h4 h5]
  have b: "map msg_body (messages (handleProcessInvoice sampleEnv (sessionWithFile [])))
       = [MsgWelcome, TxtProcessRequest (Some (ascii ''invoice.png'')),
          MsgOcrNotAvailable (ascii ''OCR is not available'')
            (ascii ''Tesseract is not installed'')
            [ascii ''1. Download the installer'', ascii ''2. Add it to PATH'']
            (ascii ''https://example.org/tesseract'')]"
    using inst m by (simp add: p h6)
  have c: "calls (handleProcessInvoice sampleEnv (sessionWithFile []))
       = [FetchUpload (Some (File (ascii ''invoice.png'')))]"
    using inst by (simp add: k u)
  have f: "uploadedFile (handleProcessInvoice sampleEnv (sessionWithFile []))
       = Some (File (ascii ''invoice.png''))"
    using inst by (simp add: u)
  have h5': "body_details ocrUnavailableBody \<noteq> None"
    by (simp add: h5)
  show ?thesis using u h2 h3 h4 h5' b c f by blast
qed

section \<open>A pending file or an active camera, never both\<close>

lemma dispatch_session:
  "(uploadedFile (dispatch e s i) = uploadedFile s \<and> cameraActive (dispatch e s i) = cameraActive s)
   \<or> atMostOne (dispatch e s i)"
proof (cases i)
  case CameraCapture
  then show ?thesis
    using handleCapturePhoto_session [of e s]
    by (auto simp add: dispatch_def atMostOne_def frame_simps)
next
  case Process
  then show ?thesis
    using handleProcessInvoice_session [of e s]
    by (auto simp add: dispatch_def atMostOne_def frame_simps)
qed (simp_all add: dispatch_def atMostOne_def handleActionButton_frame Let_def frame_simps)

lemma handleChatCommand_session:
  "(uploadedFile (fst (handleChatCommand e s c)) = uploadedFile s
    \<and> cameraActive (fst (handleChatCommand e s c)) = cameraActive s)
   \<or> atMostOne (fst (handleChatCommand e s c))"
  using dispatch_session [of e s]
  by (simp add: handleChatCommand_dispatch split: option.splits)

lemma handleSendMessage_session:
  "(uploadedFile (handleSendMessage e s) = uploadedFile s
    \<and> cameraActive (handleSendMessage e s) = cameraActive s)
   \<or> atMostOne (handleSendMessage e s)"
proof (cases "trim (inputMessage s) \<noteq> []")
  case False
  then show ?thesis by (simp add: handleSendMessage_def)
next
  case True
  show ?thesis
  proof (cases "chatApi e (inputMessage s)")
    case None
    then show ?thesis using True by (simp add: handleSendMessage_def Let_def frame_simps)
  next
    case (Some r)
    define s1 where "s1 = (addMessage e User (Raw (inputMessage s)) s)
                    \<lparr>inputMessage := [], isTyping := True,
                     calls := calls s @ [FetchChat (inputMessage s)]\<rparr>"
    have same: "uploadedFile s1 = uploadedFile s" "cameraActive s1 = cameraActive s"
      by (simp_all add: s1_def frame_simps)
    obtain s2 b where r: "handleChatCommand e s1 (inputMessage s) = (s2, b)"
      by (cases "handleChatCommand e s1 (inputMessage s)")
    have "(uploadedFile s2 = uploadedFile s \<and> cameraActive s2 = cameraActive s) \<or> atMostOne s2"
      using handleChatCommand_session [of e s1 "inputMessage s"] r same by simp
    moreover have "uploadedFile (handleSendMessage e s) = uploadedFile s2"
      and "cameraActive (handleSendMessage e s) = cameraActive s2"
      using True Some r by (simp_all add: handleSendMessage_def Let_def s1_def frame_simps)
    ultimately show ?thesis by (auto simp add: atMostOne_def)
  qed
qed

lemma step_session:
  "(uploadedFile (step e ev s) = uploadedFile s \<and> cameraActive (step e ev s) = cameraActive s)
   \<or> atMostOne (step e ev s)"
proof (cases ev)
  case (EvFileUpload files)
  then show ?thesis
    by (cases files) (simp_all add: step_def handleFileUpload_def atMostOne_def frame_simps)
next
  case EvCapturePhoto
  then show ?thesis
    using handleCapturePhoto_session [of e s] by (auto simp add: step_def atMostOne_def)
next
  case EvProcessInvoice
  then show ?thesis
    using handleProcessInvoice_session [of e s] by (auto simp add: step_def atMostOne_def)
next
  case (EvChatCommand c)
  then show ?thesis using handleChatCommand_session [of e s c] by (simp add: step_def)
next
  case EvSendMessage
  then show ?thesis using handleSendMessage_session [of e s] by (simp add: step_def)
qed (simp_all add: step_def atMostOne_def removeFile_def frame_simps)

lemma step_atMostOne: "atMostOne s \<Longrightarrow> atMostOne (step e ev s)"
  using step_session [of e ev s] by (auto simp add: atMostOne_def)

lemma run_atMostOne: "atMostOne s \<Longrightarrow> atMostOne (run evs s)"
  by (induction evs s rule: run.induct) (simp_all add: step_atMostOne)

text \<open>
  C9. At most one of the two holds: a file is pending, or the camera is active. Every
  handler keeps it so, every handler that changes either field ends in such a state
  whatever the state before, and it holds when the component is mounted, hence after
  every run of handlers. Choosing a file turns the camera off, starting the camera
  clears the pending file, and a photo that the canvas delivers becomes the pending
  file with the camera stopped.
\<close>

theorem pending_file_or_camera:
  "(atMostOne s \<longrightarrow> atMostOne (step e ev s))
   \<and> (uploadedFile (step e ev s) \<noteq> uploadedFile s \<or> cameraActive (step e ev s) \<noteq> cameraActive s
        \<longrightarrow> atMostOne (step e ev s))
   \<and> atMostOne (run evs initialSession)
   \<and> uploadedFile (handleFileUpload e (f # fs) s) = Some f
   \<and> \<not> cameraActive (handleFileUpload e (f # fs) s)
   \<and> uploadedFile (handleStartCamera e s) = None
   \<and> (videoRef e \<and> canvasRef e \<and> canvasContext e \<and> toBlob e = Some f \<longrightarrow>
        uploadedFile (handleCapturePhoto e s) = Some f
        \<and> \<not> cameraActive (handleCapturePhoto e s))"
proof -
  have "atMostOne initialSession"
    by (simp add: atMostOne_def initialSession_def)
  then have "atMostOne (run evs initialSession)"
    by (rule run_atMostOne)
  then show ?thesis
    using step_session [of e ev s] step_atMostOne [of s e ev]
    by (auto simp add: handleFileUpload_def handleCapturePhoto_def frame_simps)
qed

theorem pending_file_or_camera_witness:
  "atMostOne (sessionWithFile [])
   \<and> cameraActive (step sampleEnv EvStartCamera (sessionWithFile []))
       \<noteq> cameraActive (sessionWithFile [])
   \<and> atMostOne (step sampleEnv EvStartCamera (sessionWithFile []))
   \<and> videoRef sampleEnv \<and> canvasRef sampleEnv \<and> canvasContext sampleEnv
   \<and> toBlob sampleEnv = Some (File (ascii ''camera-1.jpg''))
   \<and> uploadedFile (handleCapturePhoto sampleEnv (sessionWithFile []))
       = Some (File (ascii ''camera-1.jpg''))
   \<and> \<not> cameraActive (handleCapturePhoto sampleEnv (sessionWithFile []))"
proof -
  have a: "atMostOne (sessionWithFile [])"
    by (simp add: atMostOne_def sessionWithFile_def initialSession_def)
  have c: "cameraActive (step sampleEnv EvStartCamera (sessionWithFile []))
           \<noteq> cameraActive (sessionWithFile [])"
    by (simp add: step_def sessionWithFile_def initialSession_def sampleEnv_def frame_simps)
  have v: "videoRef sampleEnv \<and> canvasRef sampleEnv \<and> canvasContext sampleEnv
           \<and> toBlob sampleEnv = Some (File (ascii ''camera-1.jpg''))"
    by (simp add: sampleEnv_def)
  note inst = pending_file_or_camera
         [where s = "sessionWithFile []" and e = sampleEnv and ev = EvStartCamera
            and f = "File (ascii ''camera-1.jpg'')" and evs = "[]" and fs = "[]"]
  show ?thesis using inst a c v by blast
qed

section \<open>The confidence indicator\<close>

lemma filteredInvoices_confidence:
  "filteredInvoices e q t (map (\<lambda>iv. iv\<lparr>confidence := f iv\<rparr>) invs)
   = map (\<lambda>iv. iv\<lparr>confidence := f iv\<rparr>) (filteredInvoices e q t invs)"
  by (simp add: filteredInvoices_def filter_map comp_def)

lemma map_enumerate_snd: "map (\<lambda>p. g (snd p)) (enumerate n xs) = map g xs"
  by (induction xs arbitrary: n) simp_all

lemma tableRows_invoices: "map tr_invoice (tableRows e q t invs) = filteredInvoices e q t invs"
  using map_enumerate_snd [of "\<lambda>iv. iv" 0 "filteredInvoices e q t invs"]
  by (simp add: tableRows_def comp_def split_def)

lemma tableRows_color:
  "row \<in> set (tableRows e q t invs)
   \<Longrightarrow> tr_color row = getConfidenceColor (confidence (tr_invoice row))
       \<and> tr_percent row = confidence (tr_invoice row) * 100"
  by (auto simp add: tableRows_def)

lemma listRows_icons:
  "map row_icon (listRows invs)
   = map (\<lambda>iv. confidenceIcon (confidence iv)) (take displayLimit invs)"
  using map_enumerate_snd [of "\<lambda>iv. confidenceIcon (confidence iv)" 0 "take displayLimit invs"]
  by (simp add: listRows_def invoiceRow_def comp_def split_def)

lemma js_includes_Nil: "js_includes s []"
  by (cases s) simp_all

text \<open>
  C8. The table of the management page has a row for every invoice that passes the
  search and type filter, and the filter does not look at the confidence, so a record of
  any confidence is shown. Each row carries the colour class of its confidence, and each
  line of the chat's invoice list (the first ten invoices) carries the icon of its
  confidence. Both indicators have three classes, for a confidence of at least 0.8, from
  0.6 up to 0.8, and below 0.6, and every confidence falls in exactly one.
\<close>

theorem low_confidence_shown_with_indicator:
  "map tr_invoice (tableRows e q t invs) = filteredInvoices e q t invs
   \<and> filteredInvoices e q t (map (\<lambda>iv. iv\<lparr>confidence := f iv\<rparr>) invs)
       = map (\<lambda>iv. iv\<lparr>confidence := f iv\<rparr>) (filteredInvoices e q t invs)
   \<and> (\<forall>row \<in> set (tableRows e q t invs).
         tr_color row = getConfidenceColor (confidence (tr_invoice row)))
   \<and> (invoicesApi e = Some invs \<and> invs \<noteq> [] \<longrightarrow>
        msg_body (last (messages (handleActionButton e label_view_list s)))
          = MsgInvoiceList (length invs) (displayLimit < length invs) (listRows invs))
   \<and> map row_icon (listRows invs)
       = map (\<lambda>iv. confidenceIcon (confidence iv)) (take displayLimit invs)
   \<and> (getConfidenceColor c = Green \<longleftrightarrow> 0.8 \<le> c)
   \<and> (getConfidenceColor c = Yellow \<longleftrightarrow> 0.6 \<le> c \<and> c < 0.8)
   \<and> (getConfidenceColor c = Red \<longleftrightarrow> c < 0.6)
   \<and> (confidenceIcon c = IconCheck \<longleftrightarrow> 0.8 \<le> c)
   \<and> (confidenceIcon c = IconWarning \<longleftrightarrow> 0.6 \<le> c \<and> c < 0.8)
   \<and> (confidenceIcon c = IconCross \<longleftrightarrow> c < 0.6)"
proof -
  have list: "invoicesApi e = Some invs \<and> invs \<noteq> [] \<longrightarrow>
        msg_body (last (messages (handleActionButton e label_view_list s)))
          = MsgInvoiceList (length invs) (displayLimit < length invs) (listRows invs)"
  proof
    assume a: "invoicesApi e = Some invs \<and> invs \<noteq> []"
    have "js_includes label_view_list sub_Xem_danh_sach"
      by (simp add: ascii_def literal_defs)
    then show "msg_body (last (messages (handleActionButton e label_view_list s)))
          = MsgInvoiceList (length invs) (displayLimit < length invs) (listRows invs)"
      using a by (simp add: handleActionButton_def Let_def addBotMessage_def addMessage_def)
  qed
  have classes: "(getConfidenceColor c = Green \<longleftrightarrow> 0.8 \<le> c)
   \<and> (getConfidenceColor c = Yellow \<longleftrightarrow> 0.6 \<le> c \<and> c < 0.8)
   \<and> (getConfidenceColor c = Red \<longleftrightarrow> c < 0.6)
   \<and> (confidenceIcon c = IconCheck \<longleftrightarrow> 0.8 \<le> c)
   \<and> (confidenceIcon c = IconWarning \<longleftrightarrow> 0.6 \<le> c \<and> c < 0.8)
   \<and> (confidenceIcon c = IconCross \<longleftrightarrow> c < 0.6)"
    by (auto simp add: getConfidenceColor_def confidenceIcon_def)
  show ?thesis
    using tableRows_invoices [of e q t invs] filteredInvoices_confidence [of e q t f invs]
      tableRows_color [of _ e q t invs] list listRows_icons [of invs] classes
    by blast
qed

theorem low_confidence_shown_with_indicator_witness:
  "invoicesApi sampleEnv = Some [sampleInvoice 0.5]
   \<and> map tr_invoice (tableRows sampleEnv [] str_all [sampleInvoice 0.5]) = [sampleInvoice 0.5]
   \<and> map tr_color (tableRows sampleEnv [] str_all [sampleInvoice 0.5]) = [Red]
   \<and> msg_body (last (messages (handleActionButton sampleEnv label_view_list initialSession)))
       = MsgInvoiceList 1 False (listRows [sampleInvoice 0.5])
   \<and> map row_icon (listRows [sampleInvoice 0.5]) = [IconCross]
   \<and> getConfidenceColor 0.5 = Red \<and> confidenceIcon 0.5 = IconCross"
proof -
  note inst = low_confidence_shown_with_indicator
         [where e = sampleEnv and q = "[]" and t = str_all and invs = "[sampleInvoice 0.5]"
            and s = initialSession and c = "0.5" and f = "\<lambda>iv. 0.5"]
  have api: "invoicesApi sampleEnv = Some [sampleInvoice 0.5]"
    by (simp add: sampleEnv_def)
  have conf: "confidence (sampleInvoice x) = x" for x
    by (simp add: sampleInvoice_def)
  have fi: "filteredInvoices sampleEnv [] str_all [sampleInvoice 0.5] = [sampleInvoice 0.5]"
    by (simp add: filteredInvoices_def sampleEnv_def toLowerCaseVi_def js_includes_Nil)
  have inv: "map tr_invoice (tableRows sampleEnv [] str_all [sampleInvoice 0.5])
             = [sampleInvoice 0.5]"
    using inst fi by simp
  then obtain row where row: "tableRows sampleEnv [] str_all [sampleInvoice 0.5] = [row]"
    and ri: "tr_invoice row = sampleInvoice 0.5"
    by (auto simp add: map_eq_Cons_conv)
  have red: "getConfidenceColor 0.5 = Red" and cross: "confidenceIcon 0.5 = IconCross"
    using inst by simp_all
  have "tr_color row = getConfidenceColor (confidence (tr_invoice row))"
    using inst row by simp
  then have col: "map tr_color (tableRows sampleEnv [] str_all [sampleInvoice 0.5]) = [Red]"
    using row ri red by (simp add: conf)
  have msg: "msg_body (last (messages (handleActionButton sampleEnv label_view_list initialSession)))
       = MsgInvoiceList 1 False (listRows [sampleInvoice 0.5])"
    using inst api by (simp add: displayLimit_def)
  have icons: "map row_icon (listRows [sampleInvoice 0.5]) = [IconCross]"
    using inst cross by (simp add: displayLimit_def conf)
  show ?thesis using api inv col msg icons red cross by blast
qed

section \<open>Intake of an upload\<close>

text \<open>
  C2. For every valid upload the intake answers with the job id and the status queued
  and nothing else. When it answers, the job is in the queue with status queued, no
  recognition call has been made and no invoice record has been written, so the answer
  does not wait for recognition and cannot carry the extracted record. The API
  service's upload call hands exactly this answer to its caller.
\<close>

theorem intake_acknowledges_without_recognition:
  assumes "validUpload cfg u"
  shows "fst (intake cfg now u b) = Inr \<lparr>ack_job_id = next_id b, ack_status = Queued\<rparr>
         \<and> jobs (snd (intake cfg now u b))
             = jobs b @ [\<lparr>job_id = next_id b, owner_id = up_owner u, image_ref = next_id b,
                          job_state = Queued, submitted_at = now, attempts = 0\<rparr>]
         \<and> queue (snd (intake cfg now u b)) = queue b @ [next_id b]
         \<and> recognitions (snd (intake cfg now u b)) = recognitions b
         \<and> records (snd (intake cfg now u b)) = records b
         \<and> uploadInvoice (FetchReply (ReplyOk \<lparr>ack_job_id = next_id b, ack_status = Queued\<rparr>))
             = Inr \<lparr>ack_job_id = next_id b, ack_status = Queued\<rparr>"
  using assms by (simp add: intake_def Let_def uploadInvoice_def)

theorem intake_acknowledges_without_recognition_witness:
  "validUpload sampleConfig sampleUpload
   \<and> fst (intake sampleConfig 0 sampleUpload emptyBackend)
       = Inr \<lparr>ack_job_id = 1, ack_status = Queued\<rparr>
   \<and> queue (snd (intake sampleConfig 0 sampleUpload emptyBackend)) = [1]
   \<and> recognitions (snd (intake sampleConfig 0 sampleUpload emptyBackend)) = 0
   \<and> records (snd (intake sampleConfig 0 sampleUpload emptyBackend)) = []"
proof -
  have v: "validUpload sampleConfig sampleUpload"
    by (simp add: validUpload_def sampleConfig_def sampleUpload_def ascii_def)
  have b: "next_id emptyBackend = 1" "queue emptyBackend = []" "recognitions emptyBackend = 0"
    "records emptyBackend = []"
    by (simp_all add: emptyBackend_def)
  from intake_acknowledges_without_recognition [OF v, of 0 emptyBackend] v show ?thesis
    by (simp add: b)
qed

text \<open>
  The dashboard's own upload, \<^verbatim>\<open>handleProcessInvoice\<close>, reads the invoice from the
  reply to the same request. On an ok reply without one, as an acknowledgement of job id
  and status is, it ends in its error message and keeps the pending file.
\<close>

lemma handleProcessInvoice_without_record:
  assumes "uploadedFile s \<noteq> None \<or> cameraActive s"
    and "uploadApi e (uploadedFile s) = UploadResponse True d"
    and "body_status d \<noteq> Some str_error"
    and "body_invoice d = None"
  shows "msg_body (last (messages (handleProcessInvoice e s))) = MsgProcessError
         \<and> uploadedFile (handleProcessInvoice e s) = uploadedFile s
         \<and> cameraActive (handleProcessInvoice e s) = cameraActive s"
  using assms
  by (auto simp add: handleProcessInvoice_def Let_def processFailed_def addBotMessage_def
        addMessage_def)

section \<open>Confidence of persisted records\<close>

lemma clip01_bounds: "0 \<le> clip01 x \<and> clip01 x \<le> 1"
  by (simp add: clip01_def)

lemma extractRecord_confidence:
  "0 \<le> confidence (extractRecord w x) \<and> confidence (extractRecord w x) \<le> 1"
  by (simp add: extractRecord_def scoreConfidence_def clip01_bounds)

lemma upsert_set: "set (upsert k r st) \<subseteq> insert (k, r) (set st)"
  by (induction st) auto

lemma persistAll_snoc:
  "persistAll w (xs @ [(jid, x)]) = upsert jid (extractRecord w x) (persistAll w xs)"
  by (simp add: persistAll_def)

lemma persistAll_confidence:
  "(jid, r) \<in> set (persistAll w xs) \<Longrightarrow> 0 \<le> confidence r \<and> confidence r \<le> 1"
proof (induction xs arbitrary: jid r rule: rev_induct)
  case Nil
  then show ?case by (simp add: persistAll_def)
next
  case (snoc p xs)
  obtain k x where p: "p = (k, x)" by (cases p)
  from snoc.prems have "(jid, r) \<in> insert (k, extractRecord w x) (set (persistAll w xs))"
    using upsert_set [of k "extractRecord w x" "persistAll w xs"]
    by (auto simp add: p persistAll_snoc)
  then show ?case
    using snoc.IH extractRecord_confidence [of w x] by auto
qed

text \<open>
  C7. Every record that the pipeline has persisted has a confidence between 0 and 1,
  so the percentage that the chat list and the management table compute from it, the
  confidence times 100, is between 0 and 100.
\<close>

theorem persisted_confidence_in_unit_interval:
  assumes "(jid, r) \<in> set (persistAll w xs)"
  shows "0 \<le> confidence r \<and> confidence r \<le> 1
         \<and> 0 \<le> row_percent (invoiceRow k r) \<and> row_percent (invoiceRow k r) \<le> 100"
  using persistAll_confidence [OF assms] by (simp add: invoiceRow_def)

theorem persisted_confidence_in_unit_interval_witness:
  "(1, extractRecord sampleScoring sampleExtraction)
     \<in> set (persistAll sampleScoring [(1, sampleExtraction)])
   \<and> confidence (extractRecord sampleScoring sampleExtraction) = 1
   \<and> 0 \<le> confidence (extractRecord sampleScoring sampleExtraction)
   \<and> confidence (extractRecord sampleScoring sampleExtraction) \<le> 1
   \<and> row_percent (invoiceRow 0 (extractRecord sampleScoring sampleExtraction)) \<le> 100"
proof -
  have m: "(1, extractRecord sampleScoring sampleExtraction)
     \<in> set (persistAll sampleScoring [(1, sampleExtraction)])"
    by (simp add: persistAll_def)
  have c: "confidence (extractRecord sampleScoring sampleExtraction) = 1"
    by (simp add: extractRecord_def scoreConfidence_def clip01_def sampleScoring_def
          sampleExtraction_def)
  from persisted_confidence_in_unit_interval [OF m, of 0] m c show ?thesis
    by blast
qed

end
